theory Spec2Isabelle
  imports Complex_Main
begin

section \<open>The JavaScript values the server handles\<close>

text \<open>
  The server (\<^verbatim>\<open>src/unnamed/part_001\<close>, an Express application) receives record sets as
  decoded JSON: arrays of objects whose properties are the cells of a row. The model keeps
  what the code can tell apart about a cell: \<^verbatim>\<open>null\<close>, \<^verbatim>\<open>undefined\<close>, a boolean, a
  string, a number, a \<^verbatim>\<open>Date\<close> object, or another object.

  A string is the sequence of its UTF-16 code units, and a \<^typ>\<open>char\<close> is a code unit
  below 256: the strings of the model are those written in Latin-1 (U+0000 to U+00FF).
  On these \<^verbatim>\<open>toLowerCase\<close> and \<^verbatim>\<open>trim\<close> are modelled in full.

  A number is \<^verbatim>\<open>NaN\<close>, an infinity, or a decimal \<open>m * 10 ^ e\<close>, the form in which a
  number is written in a JSON text or in a cell. Of the conversion of a literal to
  binary64 the model has the two ends of the range, a literal too large being an infinity
  and one too small being zero; between them a literal keeps its exact value, where the
  code has the nearest binary64 value.
\<close>

datatype jsnum = NaN | PosInfinity | NegInfinity | Dec int int

datatype cell =
  JNull | JUndefined | JBool bool | JStr string | JNum jsnum | JDate "int option"
  | JObject string

text \<open>
  \<open>JDate t\<close> is a \<^verbatim>\<open>Date\<close> object with time value \<open>t\<close> in milliseconds, \<open>None\<close> for an
  invalid date (whose \<^verbatim>\<open>getTime()\<close> is \<^verbatim>\<open>NaN\<close>).

  \<open>JObject s\<close> is an object that is not a \<^verbatim>\<open>Date\<close>: an object or an array nested in the
  JSON text, or a function or object that a row inherits from \<^verbatim>\<open>Object.prototype\<close>. The
  code only ever converts a cell to a primitive (\<^verbatim>\<open>String\<close>, \<^verbatim>\<open>parseFloat\<close>,
  \<^verbatim>\<open>isNaN\<close>, \<^verbatim>\<open>new Date\<close>), and for such an object every one of these conversions goes
  through its \<^verbatim>\<open>toString\<close> method (\<^verbatim>\<open>valueOf\<close> returns the object itself), so the
  object is kept as the string \<open>s\<close> that \<^verbatim>\<open>toString\<close> returns: \<^verbatim>\<open>[object Object]\<close> for
  a plain object, the elements joined by commas for an array, the source text for a
  function. An object whose conversion raises a \<^verbatim>\<open>TypeError\<close>, such as
  \<^verbatim>\<open>{"toString": 1}\<close>, is not a cell; see \<open>evaluateFilter_outcome\<close> for such a
  comparison value.

  What a \<^verbatim>\<open>Date\<close> does with text depends on the engine and on the local time zone:
  \<^verbatim>\<open>Date.parse\<close> of a string that is not in the ISO format is implementation-defined, and
  \<^verbatim>\<open>toString\<close> and \<^verbatim>\<open>toDateString\<close> print local time. These three are parameters of
  the model.
\<close>

record js_runtime =
  date_parse :: "string \<Rightarrow> int option"
  date_toString :: "int option \<Rightarrow> string"
  date_toDateString :: "int option \<Rightarrow> string"

subsection \<open>Characters and strings\<close>

definition is_digit :: "char \<Rightarrow> bool" where
  "is_digit c = (c \<in> set ''0123456789'')"

definition index_of :: "'a \<Rightarrow> 'a list \<Rightarrow> nat" where
  "index_of x xs = length (takeWhile (\<lambda>y. y \<noteq> x) xs)"

text \<open>The value of a digit, also of a hexadecimal one; 0 for any other character.\<close>

definition digit_value :: "char \<Rightarrow> nat" where
  "digit_value c =
     (if c \<in> set ''0123456789abcdef'' then index_of c ''0123456789abcdef''
      else if c \<in> set ''ABCDEF'' then 10 + index_of c ''ABCDEF''
      else 0)"

definition digit_char :: "nat \<Rightarrow> char" where
  "digit_char n = ''0123456789'' ! n"

text \<open>
  \<^verbatim>\<open>String.prototype.toLowerCase\<close> maps every code unit by the Unicode case mapping. The
  letters of Latin-1 that have a lower case are U+0041 to U+005A (A to Z) and U+00C0 to
  U+00DE without the multiplication sign U+00D7; the lower case of each is 32 code units
  above it.
\<close>

definition is_upper :: "char \<Rightarrow> bool" where
  "is_upper c =
     (let n = of_char c :: nat
      in (0x41 \<le> n \<and> n \<le> 0x5A) \<or> (0xC0 \<le> n \<and> n \<le> 0xDE \<and> n \<noteq> 0xD7))"

definition char_toLowerCase :: "char \<Rightarrow> char" where
  "char_toLowerCase c = (if is_upper c then char_of (of_char c + (0x20 :: nat)) else c)"

definition toLowerCase :: "string \<Rightarrow> string" where
  "toLowerCase s = map char_toLowerCase s"

text \<open>The white space and line terminators of ECMAScript that are in Latin-1: TAB, LF,
  VT, FF, CR, the space and the no-break space U+00A0.\<close>

definition is_space :: "char \<Rightarrow> bool" where
  "is_space c = (of_char c \<in> {0x09, 0x0A, 0x0B, 0x0C, 0x0D, 0x20, 0xA0 :: nat})"

definition trimStart :: "string \<Rightarrow> string" where
  "trimStart s = dropWhile is_space s"

definition trim :: "string \<Rightarrow> string" where
  "trim s = rev (dropWhile is_space (rev (dropWhile is_space s)))"

definition startsWith :: "string \<Rightarrow> string \<Rightarrow> bool" where
  "startsWith s t = (take (length t) s = t)"

definition endsWith :: "string \<Rightarrow> string \<Rightarrow> bool" where
  "endsWith s t = (length t \<le> length s \<and> drop (length s - length t) s = t)"

fun str_includes :: "string \<Rightarrow> string \<Rightarrow> bool" where
  "str_includes [] t = (t = [])"
| "str_includes (c # cs) t = (startsWith (c # cs) t \<or> str_includes cs t)"

subsection \<open>Numbers\<close>

text \<open>The value of a decimal, and the comparisons \<^verbatim>\<open>===\<close>, \<^verbatim>\<open><\<close> and \<^verbatim>\<open><=\<close> of numbers:
  every comparison with \<^verbatim>\<open>NaN\<close> is false.\<close>

definition dec_val :: "int \<Rightarrow> int \<Rightarrow> rat" where
  "dec_val m e = (if 0 \<le> e then of_int m * 10 ^ nat e else of_int m / 10 ^ nat (- e))"

fun num_eq :: "jsnum \<Rightarrow> jsnum \<Rightarrow> bool" where
  "num_eq (Dec m e) (Dec m' e') = (dec_val m e = dec_val m' e')"
| "num_eq PosInfinity PosInfinity = True"
| "num_eq NegInfinity NegInfinity = True"
| "num_eq _ _ = False"

fun num_less :: "jsnum \<Rightarrow> jsnum \<Rightarrow> bool" where
  "num_less (Dec m e) (Dec m' e') = (dec_val m e < dec_val m' e')"
| "num_less NegInfinity (Dec _ _) = True"
| "num_less NegInfinity PosInfinity = True"
| "num_less (Dec _ _) PosInfinity = True"
| "num_less _ _ = False"

definition num_le :: "jsnum \<Rightarrow> jsnum \<Rightarrow> bool" where
  "num_le a b = (num_less a b \<or> num_eq a b)"

definition isNaN :: "jsnum \<Rightarrow> bool" where
  "isNaN x = (x = NaN)"

definition isFinite :: "jsnum \<Rightarrow> bool" where
  "isFinite x = (case x of Dec _ _ \<Rightarrow> True | _ \<Rightarrow> False)"

text \<open>Decimal digits of a natural number, and the number a string of digits denotes in
  a base.\<close>

function digits_of :: "nat \<Rightarrow> string" where
  "digits_of n =
     (if n < 10 then [digit_char n]
      else digits_of (n div 10) @ [digit_char (n mod 10)])"
  by pat_completeness auto
termination
  by (relation "measure id") auto

definition digits_val :: "nat \<Rightarrow> string \<Rightarrow> nat" where
  "digits_val base ds = foldl (\<lambda>acc c. acc * base + digit_value c) 0 ds"

text \<open>
  \<^verbatim>\<open>Number.prototype.toString\<close> (ECMAScript, Number::toString with radix 10): with \<open>k\<close>
  significant digits \<open>ds\<close> and the decimal point after the \<open>n\<close>-th of them, positional
  notation for \<open>-6 < n \<le> 21\<close> and exponential notation otherwise.
\<close>

definition positive_toString :: "nat \<Rightarrow> int \<Rightarrow> string" where
  "positive_toString m e =
     (let all = digits_of m;
          ds = rev (dropWhile (\<lambda>c. c = CHR ''0'') (rev all));
          k = int (length ds);
          n = int (length all) + e
      in if k \<le> n \<and> n \<le> 21 then ds @ replicate (nat (n - k)) (CHR ''0'')
         else if 0 < n \<and> n \<le> 21 then take (nat n) ds @ ''.'' @ drop (nat n) ds
         else if - 6 < n \<and> n \<le> 0 then ''0.'' @ replicate (nat (- n)) (CHR ''0'') @ ds
         else (if k = 1 then ds else take 1 ds @ ''.'' @ drop 1 ds)
              @ ''e'' @ (if n - 1 < 0 then ''-'' else ''+'') @ digits_of (nat \<bar>n - 1\<bar>))"

fun number_toString :: "jsnum \<Rightarrow> string" where
  "number_toString NaN = ''NaN''"
| "number_toString PosInfinity = ''Infinity''"
| "number_toString NegInfinity = ''-Infinity''"
| "number_toString (Dec m e) =
     (if m = 0 then ''0''
      else (if m < 0 then ''-'' else '''') @ positive_toString (nat \<bar>m\<bar>) e)"

subsection \<open>Conversions\<close>

text \<open>\<^verbatim>\<open>String(value)\<close>.\<close>

fun toString :: "js_runtime \<Rightarrow> cell \<Rightarrow> string" where
  "toString rt JNull = ''null''"
| "toString rt JUndefined = ''undefined''"
| "toString rt (JBool b) = (if b then ''true'' else ''false'')"
| "toString rt (JStr s) = s"
| "toString rt (JNum x) = number_toString x"
| "toString rt (JDate t) = date_toString rt t"
| "toString rt (JObject s) = s"

text \<open>
  The longest prefix of a string that is a decimal literal (ECMAScript's
  \<^verbatim>\<open>StrDecimalLiteral\<close>: an optional sign, then \<^verbatim>\<open>Infinity\<close> or digits with an optional
  fraction and exponent), with the rest of the string; \<^verbatim>\<open>NaN\<close> when no prefix is one.

  The number of a literal \<open>m * 10 ^ e\<close>: an infinity from \<open>2 ^ 1024 - 2 ^ 970\<close> on, the
  least magnitude that rounds beyond the largest binary64 value, and zero up to
  \<open>2 ^ - 1075\<close>, half of the smallest one.
\<close>

definition binary64 :: "int \<Rightarrow> int \<Rightarrow> jsnum" where
  "binary64 m e =
     (if m = 0 then Dec 0 0
      else if 2 ^ 1024 - 2 ^ 970 \<le> \<bar>dec_val m e\<bar>
        then (if 0 < m then PosInfinity else NegInfinity)
      else if \<bar>dec_val m e\<bar> * 2 ^ 1075 \<le> 1 then Dec 0 0
      else Dec m e)"

definition scan_sign :: "string \<Rightarrow> int \<times> string" where
  "scan_sign s =
     (case s of
        [] \<Rightarrow> (1, s)
      | c # r \<Rightarrow> if c = CHR ''+'' then (1, r) else if c = CHR ''-'' then (- 1, r) else (1, s))"

definition scan_exponent :: "string \<Rightarrow> int \<times> string" where
  "scan_exponent s =
     (case s of
        [] \<Rightarrow> (0, s)
      | c # r \<Rightarrow>
          if c = CHR ''e'' \<or> c = CHR ''E'' then
            (let (sg, r') = scan_sign r; ds = takeWhile is_digit r'
             in if ds = [] then (0, s)
                else (sg * int (digits_val 10 ds), dropWhile is_digit r'))
          else (0, s))"

definition scan_fraction :: "string \<Rightarrow> string \<times> string" where
  "scan_fraction s =
     (case s of
        [] \<Rightarrow> ([], s)
      | c # r \<Rightarrow>
          if c = CHR ''.'' then (takeWhile is_digit r, dropWhile is_digit r) else ([], s))"

definition scan_decimal :: "string \<Rightarrow> jsnum \<times> string" where
  "scan_decimal s =
     (let (sg, r1) = scan_sign s
      in if startsWith r1 ''Infinity''
         then (if sg = 1 then PosInfinity else NegInfinity, drop 8 r1)
         else
           (let ip = takeWhile is_digit r1;
                (fp, r3) = scan_fraction (dropWhile is_digit r1)
            in if ip = [] \<and> fp = [] then (NaN, s)
               else
                 (let (ex, r4) = scan_exponent r3
                  in (binary64 (sg * int (digits_val 10 (ip @ fp))) (ex - int (length fp)), r4))))"

text \<open>\<^verbatim>\<open>parseFloat(value)\<close>: the string form of the value, leading white space skipped,
  read as far as it is a decimal literal.\<close>

definition parseFloat :: "js_runtime \<Rightarrow> cell \<Rightarrow> jsnum" where
  "parseFloat rt v = fst (scan_decimal (trimStart (toString rt v)))"

text \<open>
  \<^verbatim>\<open>Number(value)\<close>, the conversion behind the global \<^verbatim>\<open>isNaN(value)\<close> and
  \<^verbatim>\<open>isFinite(value)\<close>. A string must be a numeric literal as a whole, white space around it
  apart: a decimal literal, or a hexadecimal, octal or binary integer; the empty string
  is 0.
\<close>

definition radix_literal :: "string \<Rightarrow> jsnum option" where
  "radix_literal t =
     (case t of
        z # x # ds \<Rightarrow>
          if z = CHR ''0'' \<and> ds \<noteq> [] then
            (if x \<in> set ''xX'' \<and> list_all (\<lambda>c. c \<in> set ''0123456789abcdefABCDEF'') ds
               then Some (binary64 (int (digits_val 16 ds)) 0)
             else if x \<in> set ''oO'' \<and> list_all (\<lambda>c. c \<in> set ''01234567'') ds
               then Some (binary64 (int (digits_val 8 ds)) 0)
             else if x \<in> set ''bB'' \<and> list_all (\<lambda>c. c \<in> set ''01'') ds
               then Some (binary64 (int (digits_val 2 ds)) 0)
             else None)
          else None
      | _ \<Rightarrow> None)"

definition StringToNumber :: "string \<Rightarrow> jsnum" where
  "StringToNumber s =
     (let t = trim s
      in if t = [] then Dec 0 0
         else
           (case radix_literal t of
              Some v \<Rightarrow> v
            | None \<Rightarrow> (let (v, rest) = scan_decimal t in if rest = [] then v else NaN)))"

fun ToNumber :: "cell \<Rightarrow> jsnum" where
  "ToNumber JNull = Dec 0 0"
| "ToNumber JUndefined = NaN"
| "ToNumber (JBool b) = (if b then Dec 1 0 else Dec 0 0)"
| "ToNumber (JStr s) = StringToNumber s"
| "ToNumber (JNum x) = x"
| "ToNumber (JDate t) = (case t of None \<Rightarrow> NaN | Some ms \<Rightarrow> Dec ms 0)"
| "ToNumber (JObject s) = StringToNumber s"

text \<open>
  \<^verbatim>\<open>new Date(value)\<close>, as the time value of the new object: a string, and the string of
  an object, goes through \<^verbatim>\<open>Date.parse\<close>, anything else through \<^verbatim>\<open>Number(value)\<close>,
  which is invalid when it is not finite or beyond 8.64e15 milliseconds from the epoch,
  and truncated to an integer otherwise.
\<close>

definition TimeClip :: "jsnum \<Rightarrow> int option" where
  "TimeClip x =
     (case x of
        Dec m e \<Rightarrow>
          if \<bar>dec_val m e\<bar> > 8640000000000000 then None
          else Some (if 0 \<le> e then m * 10 ^ nat e else sgn m * (\<bar>m\<bar> div 10 ^ nat (- e)))
      | _ \<Rightarrow> None)"

fun newDate :: "js_runtime \<Rightarrow> cell \<Rightarrow> int option" where
  "newDate rt (JStr s) = date_parse rt s"
| "newDate rt (JDate t) = t"
| "newDate rt (JObject s) = date_parse rt s"
| "newDate rt v = TimeClip (ToNumber v)"

section \<open>Rows and filter conditions\<close>

text \<open>
  A row is a JavaScript object, made by \<^verbatim>\<open>JSON.parse\<close> or by the spreadsheet library:
  a plain object, whose prototype is \<^verbatim>\<open>Object.prototype\<close>. The model is the list of its
  own properties in the order \<^verbatim>\<open>Object.keys\<close> gives them, each name once. Writing a
  property replaces the value where the name exists and adds the name at the end where it
  does not.

  Reading \<^verbatim>\<open>row[column]\<close> looks for an own property first and then along the prototype
  chain, so a name the row does not have is read from \<^verbatim>\<open>Object.prototype\<close>. That
  object has twelve properties in Node.js: eleven functions, and the accessor
  \<^verbatim>\<open>__proto__\<close>, which gives \<^verbatim>\<open>Object.prototype\<close> itself. \<^verbatim>\<open>constructor\<close> is the
  function \<^verbatim>\<open>Object\<close>; the name of every other function is the name of its property. A
  built-in function prints as \<^verbatim>\<open>function name() { [native code] }\<close>. Any other name
  reads as \<^verbatim>\<open>undefined\<close>.
\<close>

type_synonym row = "(string \<times> cell) list"

definition object_keys :: "row \<Rightarrow> string list" where
  "object_keys r = map fst r"

definition prototype_functions :: "string list" where
  "prototype_functions =
     [''__defineGetter__'', ''__defineSetter__'', ''hasOwnProperty'', ''__lookupGetter__'',
      ''__lookupSetter__'', ''isPrototypeOf'', ''propertyIsEnumerable'', ''toString'',
      ''valueOf'', ''toLocaleString'']"

definition Object_prototype :: "string \<Rightarrow> cell" where
  "Object_prototype name =
     (if name = ''constructor'' then JObject ''function Object() { [native code] }''
      else if name \<in> set prototype_functions
        then JObject (''function '' @ name @ ''() { [native code] }'')
      else if name = ''__proto__'' then JObject ''[object Object]''
      else JUndefined)"

definition get_cell :: "row \<Rightarrow> string \<Rightarrow> cell" where
  "get_cell r column = (case map_of r column of None \<Rightarrow> Object_prototype column | Some v \<Rightarrow> v)"

fun set_cell :: "string \<Rightarrow> cell \<Rightarrow> row \<Rightarrow> row" where
  "set_cell k v [] = [(k, v)]"
| "set_cell k v ((k', v') # r) = (if k' = k then (k, v) # r else (k', v') # set_cell k v r)"

text \<open>A filter condition \<^verbatim>\<open>{ column, condition, value, value2 }\<close>; a field the request
  leaves out is \<^verbatim>\<open>undefined\<close>.\<close>

record filter_cond =
  column :: string
  condition :: string
  fvalue :: cell
  fvalue2 :: cell

text \<open>Two \<^verbatim>\<open>Date\<close> objects under \<^verbatim>\<open><\<close> and \<^verbatim>\<open><=\<close> compare by time value, and an
  invalid date compares false.\<close>

fun date_less :: "int option \<Rightarrow> int option \<Rightarrow> bool" where
  "date_less (Some a) (Some b) = (a < b)"
| "date_less _ _ = False"

fun date_le :: "int option \<Rightarrow> int option \<Rightarrow> bool" where
  "date_le (Some a) (Some b) = (a \<le> b)"
| "date_le _ _ = False"

subsection \<open>\<^verbatim>\<open>evaluateFilter\<close>\<close>

text \<open>The string of the cell, \<^verbatim>\<open>cellValueStr\<close>: the empty string for \<^verbatim>\<open>null\<close> and
  \<^verbatim>\<open>undefined\<close>.\<close>

definition cellValueStr :: "js_runtime \<Rightarrow> cell \<Rightarrow> string" where
  "cellValueStr rt cellValue =
     (if cellValue \<noteq> JNull \<and> cellValue \<noteq> JUndefined then toString rt cellValue else '''')"

definition evaluateFilter :: "js_runtime \<Rightarrow> row \<Rightarrow> filter_cond \<Rightarrow> bool" where
  "evaluateFilter rt r f =
     (let cellValue = get_cell r (column f);
          cellValueStr = cellValueStr rt cellValue;
          c = condition f
      in
      if c = ''equals'' then
        (let num1 = parseFloat rt cellValue; num2 = parseFloat rt (fvalue f)
         in \<not> isNaN num1 \<and> \<not> isNaN num2 \<and> num_eq num1 num2)
      else if c = ''notEquals'' then
        (let num1 = parseFloat rt cellValue; num2 = parseFloat rt (fvalue f)
         in isNaN num1 \<or> isNaN num2 \<or> \<not> num_eq num1 num2)
      else if c = ''greaterThan'' then
        (let num1 = parseFloat rt cellValue; num2 = parseFloat rt (fvalue f)
         in \<not> isNaN num1 \<and> \<not> isNaN num2 \<and> num_less num2 num1)
      else if c = ''lessThan'' then
        (let num1 = parseFloat rt cellValue; num2 = parseFloat rt (fvalue f)
         in \<not> isNaN num1 \<and> \<not> isNaN num2 \<and> num_less num1 num2)
      else if c = ''greaterThanOrEqual'' then
        (let num1 = parseFloat rt cellValue; num2 = parseFloat rt (fvalue f)
         in \<not> isNaN num1 \<and> \<not> isNaN num2 \<and> num_le num2 num1)
      else if c = ''lessThanOrEqual'' then
        (let num1 = parseFloat rt cellValue; num2 = parseFloat rt (fvalue f)
         in \<not> isNaN num1 \<and> \<not> isNaN num2 \<and> num_le num1 num2)
      else if c = ''between'' then
        (let num = parseFloat rt cellValue;
             num1 = parseFloat rt (fvalue f);
             num2 = parseFloat rt (fvalue2 f)
         in \<not> isNaN num \<and> \<not> isNaN num1 \<and> \<not> isNaN num2 \<and> num_le num1 num \<and> num_le num num2)
      else if c = ''contains'' then
        str_includes (toLowerCase cellValueStr) (toLowerCase (toString rt (fvalue f)))
      else if c = ''doesNotContain'' then
        \<not> str_includes (toLowerCase cellValueStr) (toLowerCase (toString rt (fvalue f)))
      else if c = ''startsWith'' then
        startsWith (toLowerCase cellValueStr) (toLowerCase (toString rt (fvalue f)))
      else if c = ''endsWith'' then
        endsWith (toLowerCase cellValueStr) (toLowerCase (toString rt (fvalue f)))
      else if c = ''exactMatch'' then
        cellValueStr = toString rt (fvalue f)
      else if c = ''before'' then
        (let cellDate = newDate rt cellValue; filterDate = newDate rt (fvalue f)
         in cellDate \<noteq> None \<and> filterDate \<noteq> None \<and> date_less cellDate filterDate)
      else if c = ''after'' then
        (let cellDate = newDate rt cellValue; filterDate = newDate rt (fvalue f)
         in cellDate \<noteq> None \<and> filterDate \<noteq> None \<and> date_less filterDate cellDate)
      else if c = ''on'' then
        (let cellDate = newDate rt cellValue; filterDate = newDate rt (fvalue f)
         in cellDate \<noteq> None \<and> filterDate \<noteq> None \<and>
            date_toDateString rt cellDate = date_toDateString rt filterDate)
      else if c = ''betweenDates'' then
        (let dateValue = newDate rt cellValue;
             date1 = newDate rt (fvalue f);
             date2 = newDate rt (fvalue2 f)
         in dateValue \<noteq> None \<and> date1 \<noteq> None \<and> date2 \<noteq> None \<and>
            date_le date1 dateValue \<and> date_le dateValue date2)
      else if c = ''isEmpty'' then
        cellValue = JNull \<or> cellValue = JUndefined \<or> cellValue = JStr '''' \<or>
        trim cellValueStr = ''''
      else if c = ''isNotEmpty'' then
        cellValue \<noteq> JNull \<and> cellValue \<noteq> JUndefined \<and> cellValue \<noteq> JStr '''' \<and>
        trim cellValueStr \<noteq> ''''
      else True)"

subsection \<open>Exceptions of \<^verbatim>\<open>evaluateFilter\<close>\<close>

text \<open>
  An error is a thrown \<^verbatim>\<open>Error\<close> or \<^verbatim>\<open>TypeError\<close> with its message, or a reply with
  status 400 and the message as its \<^verbatim>\<open>error\<close> field.
\<close>

datatype error = Error string | TypeError string | BadRequest string

text \<open>
  No operation of \<^verbatim>\<open>evaluateFilter\<close> raises on a cell or a comparison value of the type
  \<open>cell\<close>. The one exception that the function can raise on a row that is an object
  comes from a value outside this type: an object whose conversion to a primitive
  fails, for which \<^verbatim>\<open>String(value)\<close>, \<^verbatim>\<open>parseFloat(value)\<close> and \<^verbatim>\<open>new Date(value)\<close>
  raise a \<^verbatim>\<open>TypeError\<close>. The JSON text \<^verbatim>\<open>{"toString": 1}\<close> decodes to one: its own
  property \<^verbatim>\<open>toString\<close> is not a function, and \<^verbatim>\<open>valueOf\<close> returns the object.

  \<open>evaluateFilter_outcome\<close> is \<^verbatim>\<open>evaluateFilter\<close> for comparison values that may be such
  an object; its arguments after the row are the four fields of the condition. Every
  branch of the numeric, text and date families converts \<^verbatim>\<open>value\<close> before it
  returns, \<^verbatim>\<open>between\<close> and \<^verbatim>\<open>betweenDates\<close> convert \<^verbatim>\<open>value2\<close> after it, and the
  branches \<^verbatim>\<open>isEmpty\<close>, \<^verbatim>\<open>isNotEmpty\<close> and \<^verbatim>\<open>default\<close> read neither.
\<close>

datatype jsvalue = Value cell | Unconvertible

fun the_cell :: "jsvalue \<Rightarrow> cell" where
  "the_cell (Value v) = v"
| "the_cell Unconvertible = JUndefined"

definition converting_conditions :: "string list" where
  "converting_conditions =
     [''equals'', ''notEquals'', ''greaterThan'', ''lessThan'', ''greaterThanOrEqual'',
      ''lessThanOrEqual'', ''between'', ''contains'', ''doesNotContain'', ''startsWith'',
      ''endsWith'', ''exactMatch'', ''before'', ''after'', ''on'', ''betweenDates'']"

definition evaluateFilter_outcome ::
  "js_runtime \<Rightarrow> row \<Rightarrow> string \<Rightarrow> string \<Rightarrow> jsvalue \<Rightarrow> jsvalue \<Rightarrow> error + bool" where
  "evaluateFilter_outcome rt r col cond v v2 =
     (if cond \<in> set converting_conditions \<and> v = Unconvertible
        then Inl (TypeError ''Cannot convert object to primitive value'')
      else if cond \<in> set [''between'', ''betweenDates''] \<and> v2 = Unconvertible
        then Inl (TypeError ''Cannot convert object to primitive value'')
      else Inr (evaluateFilter rt r
                  \<lparr>column = col, condition = cond, fvalue = the_cell v, fvalue2 = the_cell v2\<rparr>))"

subsection \<open>\<^verbatim>\<open>applyFilters\<close> and \<^verbatim>\<open>applyFiltersWithLogic\<close>\<close>

text \<open>
  The list of conditions is \<open>None\<close> when the caller passes none (\<^verbatim>\<open>!filters\<close>). The
  callback of \<^verbatim>\<open>applyFilters\<close> repeats the \<^verbatim>\<open>switch\<close> of \<^verbatim>\<open>evaluateFilter\<close> case by
  case, so the model calls \<open>evaluateFilter\<close> there.
\<close>

definition applyFilters :: "js_runtime \<Rightarrow> row list \<Rightarrow> filter_cond list option \<Rightarrow> row list" where
  "applyFilters rt data filters =
     (case filters of
        None \<Rightarrow> data
      | Some fs \<Rightarrow>
          if length fs = 0 then data
          else filter (\<lambda>r. list_all (\<lambda>f. evaluateFilter rt r f) fs) data)"

definition applyFiltersWithLogic ::
  "js_runtime \<Rightarrow> row list \<Rightarrow> filter_cond list option \<Rightarrow> string \<Rightarrow> row list" where
  "applyFiltersWithLogic rt data filters logicOperator =
     (case filters of
        None \<Rightarrow> data
      | Some fs \<Rightarrow>
          if length fs = 0 then data
          else if logicOperator = ''OR''
            then filter (\<lambda>r. list_ex (\<lambda>f. evaluateFilter rt r f) fs) data
            else filter (\<lambda>r. list_all (\<lambda>f. evaluateFilter rt r f) fs) data)"

section \<open>Type detection\<close>

text \<open>A date pattern such as \<^verbatim>\<open>/^\d{4}-\d{2}-\d{2}$/\<close> is written as a template in which
  \<open>d\<close> stands for one digit.\<close>

definition matches_template :: "string \<Rightarrow> string \<Rightarrow> bool" where
  "matches_template pat s =
     list_all2 (\<lambda>p c. if p = CHR ''d'' then is_digit c else c = p) pat s"

definition datePatterns :: "string list" where
  "datePatterns = [''dddd-dd-dd'', ''dd/dd/dddd'', ''dd-dd-dddd'', ''dddd/dd/dd'']"

definition detectDataType :: "js_runtime \<Rightarrow> cell \<Rightarrow> string" where
  "detectDataType rt v =
     (if v = JNull \<or> v = JUndefined \<or> v = JStr '''' then ''text''
      else if (case v of JDate _ \<Rightarrow> True | _ \<Rightarrow> False) then ''date''
      else if (case v of JNum _ \<Rightarrow> True | _ \<Rightarrow> False) then ''number''
      else
        (let dateStr = trim (toString rt v)
         in if list_ex (\<lambda>pattern. matches_template pattern dateStr) datePatterns \<and>
               newDate rt (JStr dateStr) \<noteq> None
            then ''date''
            else if \<not> isNaN (ToNumber v) \<and> \<not> isNaN (parseFloat rt v) \<and> isFinite (ToNumber v)
            then ''number''
            else ''text''))"

text \<open>
  The type sampling of \<^verbatim>\<open>parseExcel\<close>, from the rows that the spreadsheet library
  returned: the first \<open>sampleSize\<close> rows are sampled, and a column gets the most common
  type among its sampled values that are not empty.
\<close>

definition sampleSize :: "row list \<Rightarrow> nat" where
  "sampleSize rows = min 100 (length rows div 10)"

definition nonEmptyValues :: "row list \<Rightarrow> string \<Rightarrow> cell list" where
  "nonEmptyValues rows header =
     filter (\<lambda>v. v \<noteq> JNull \<and> v \<noteq> JUndefined \<and> v \<noteq> JStr '''')
       (map (\<lambda>r. get_cell r header) rows)"

definition sampleValues :: "row list \<Rightarrow> string \<Rightarrow> cell list" where
  "sampleValues rows header = nonEmptyValues (take (sampleSize rows) rows) header"

definition typeCount :: "js_runtime \<Rightarrow> cell list \<Rightarrow> string \<Rightarrow> nat" where
  "typeCount rt vs t = length (filter (\<lambda>v. detectDataType rt v = t) vs)"

text \<open>The type of a column from its sample: \<open>text\<close> for an empty sample, else the most
  common type, number before date before text on a tie.\<close>

definition typeOfSample :: "js_runtime \<Rightarrow> cell list \<Rightarrow> string" where
  "typeOfSample rt vs =
     (if length vs = 0 then ''text''
      else if typeCount rt vs ''number'' \<ge> typeCount rt vs ''date'' \<and>
              typeCount rt vs ''number'' \<ge> typeCount rt vs ''text'' then ''number''
      else if typeCount rt vs ''date'' \<ge> typeCount rt vs ''text'' then ''date''
      else ''text'')"

definition columnType :: "js_runtime \<Rightarrow> row list \<Rightarrow> string \<Rightarrow> string" where
  "columnType rt rows header = typeOfSample rt (sampleValues rows header)"

text \<open>
  The copy of \<^verbatim>\<open>parseExcel\<close> in \<^verbatim>\<open>src/backend/server.js\<close> differs in the sample only:
  it takes \<^verbatim>\<open>data.slice(0, Math.min(10, data.length))\<close>, the first ten rows or all of
  them.
\<close>

definition columnType_backend :: "js_runtime \<Rightarrow> row list \<Rightarrow> string \<Rightarrow> string" where
  "columnType_backend rt rows header =
     typeOfSample rt (nonEmptyValues (take (min 10 (length rows)) rows) header)"

text \<open>The result of \<^verbatim>\<open>parseExcel\<close> is \<^verbatim>\<open>{ headers, data, columnTypes, totalRows }\<close>,
  here a tuple in that order; \<^verbatim>\<open>columnTypes\<close> lists the type of each header.\<close>

definition parseExcel ::
  "js_runtime \<Rightarrow> row list \<Rightarrow> error + (string list \<times> row list \<times> (string \<times> string) list \<times> nat)" where
  "parseExcel rt rows =
     (case rows of
        [] \<Rightarrow> Inl (Error ''Excel file is empty'')
      | first # _ \<Rightarrow>
          Inr (object_keys first,
               rows,
               map (\<lambda>header. (header, columnType rt rows header)) (object_keys first),
               length rows))"

section \<open>Pagination\<close>

text \<open>\<^verbatim>\<open>Array.prototype.slice(start, end)\<close> with integer arguments: a negative index counts
  from the end, and both are clipped to the array.\<close>

definition slice :: "'a list \<Rightarrow> int \<Rightarrow> int \<Rightarrow> 'a list" where
  "slice xs start end' =
     (let len = int (length xs);
          k = (if start < 0 then max (len + start) 0 else min start len);
          final = (if end' < 0 then max (len + end') 0 else min end' len)
      in take (nat (final - k)) (drop (nat k) xs))"

text \<open>\<^verbatim>\<open>Math.ceil(totalRows / pageSize)\<close> for a row count and an integer page size: the
  division by zero gives \<^verbatim>\<open>NaN\<close> for no rows and \<^verbatim>\<open>Infinity\<close> otherwise.\<close>

definition ceil_quotient :: "nat \<Rightarrow> int \<Rightarrow> jsnum" where
  "ceil_quotient totalRows pageSize =
     (if pageSize = 0 then (if totalRows = 0 then NaN else PosInfinity)
      else Dec \<lceil>(of_nat totalRows :: rat) / of_int pageSize\<rceil> 0)"

record page_info =
  currentPage :: int
  totalPages :: jsnum
  hasMore :: bool

text \<open>The pagination block, which the handlers of \<^verbatim>\<open>/api/filter\<close> and
  \<^verbatim>\<open>/api/reference-filter\<close> both have, word for word.\<close>

definition paginate :: "row list \<Rightarrow> int \<Rightarrow> int \<Rightarrow> row list \<times> page_info" where
  "paginate rows page pageSize =
     (let totalRows = length rows;
          startIndex = (page - 1) * pageSize;
          endIndex = startIndex + pageSize;
          paginatedData = slice rows startIndex endIndex
      in (paginatedData,
          \<lparr>currentPage = page,
           totalPages = ceil_quotient totalRows pageSize,
           hasMore = (endIndex < int totalRows)\<rparr>))"

section \<open>The handler of \<^verbatim>\<open>POST /api/filter\<close>\<close>

record filter_response =
  f_data :: "row list"
  f_totalRows :: nat
  f_originalRows :: nat
  f_paging :: "page_info option"

text \<open>The arguments are the fields \<^verbatim>\<open>data\<close>, \<^verbatim>\<open>filters\<close>, \<^verbatim>\<open>page\<close> and \<^verbatim>\<open>pageSize\<close> of
  the request body, \<open>None\<close> for one that is missing (for \<^verbatim>\<open>data\<close>, also when it is not an
  array).\<close>

definition filter_handler ::
  "js_runtime \<Rightarrow> row list option \<Rightarrow> filter_cond list option \<Rightarrow> int option \<Rightarrow> int option
     \<Rightarrow> error + filter_response" where
  "filter_handler rt body_data filters page pageSize =
     (case body_data of
        None \<Rightarrow> Inl (BadRequest ''Invalid data provided'')
      | Some rows \<Rightarrow>
          (let filteredData = applyFilters rt rows filters;
               totalRows = length filteredData;
               originalRows = length rows
           in if page \<noteq> None \<and> pageSize \<noteq> None then
                (let (paginatedData, info) = paginate filteredData (the page) (the pageSize)
                 in Inr \<lparr>f_data = paginatedData, f_totalRows = totalRows,
                         f_originalRows = originalRows, f_paging = Some info\<rparr>)
              else
                Inr \<lparr>f_data = filteredData, f_totalRows = totalRows,
                     f_originalRows = originalRows, f_paging = None\<rparr>))"

section \<open>The handler of \<^verbatim>\<open>POST /api/reference-filter\<close>\<close>

record key_col =
  refColumn :: string
  primaryColumn :: string

record ref_request =
  referenceData :: "row list option"
  primaryData :: "row list option"
  keyColumns :: "key_col list option"
  filterConditions :: "filter_cond list option"
  joinType :: "string option"
  logicOperator :: "string option"
  page :: "int option"
  pageSize :: "int option"

record ref_response =
  data :: "row list"
  headers :: "string list"
  totalRows :: nat
  originalPrimaryRows :: nat
  filteredRefRows :: nat
  matchedRows :: nat
  paging :: "page_info option"

subsection \<open>Validation of the key columns\<close>

text \<open>The loop over \<^verbatim>\<open>keyColumns\<close> replies at the first column that is missing;
  \<open>None\<close> when every column is there.\<close>

definition quoted :: "string \<Rightarrow> string" where
  "quoted s = [CHR 0x22] @ s @ [CHR 0x22]"

fun check_keyColumns :: "string list \<Rightarrow> string list \<Rightarrow> key_col list \<Rightarrow> error option" where
  "check_keyColumns refHeaders primaryHeaders [] = None"
| "check_keyColumns refHeaders primaryHeaders (keyCol # rest) =
     (if refColumn keyCol \<notin> set refHeaders
        then Some (BadRequest (''Reference column '' @ quoted (refColumn keyCol) @ '' not found''))
      else if primaryColumn keyCol \<notin> set primaryHeaders
        then Some (BadRequest (''Primary column '' @ quoted (primaryColumn keyCol) @ '' not found''))
      else check_keyColumns refHeaders primaryHeaders rest)"

subsection \<open>Composite keys and the lookup map\<close>

text \<open>\<^verbatim>\<open>Array.prototype.join(sep)\<close> on strings.\<close>

fun join :: "string \<Rightarrow> string list \<Rightarrow> string" where
  "join sep [] = ''''"
| "join sep [x] = x"
| "join sep (x # y # ys) = x @ sep @ join sep (y # ys)"

definition keyComponent :: "js_runtime \<Rightarrow> cell \<Rightarrow> string" where
  "keyComponent rt v =
     (if v \<noteq> JNull \<and> v \<noteq> JUndefined then trim (toLowerCase (toString rt v)) else '''')"

definition refCompositeKey :: "js_runtime \<Rightarrow> key_col list \<Rightarrow> row \<Rightarrow> string" where
  "refCompositeKey rt kcs refRow =
     join ''|||'' (map (\<lambda>kc. keyComponent rt (get_cell refRow (refColumn kc))) kcs)"

definition primaryCompositeKey :: "js_runtime \<Rightarrow> key_col list \<Rightarrow> row \<Rightarrow> string" where
  "primaryCompositeKey rt kcs primaryRow =
     join ''|||'' (map (\<lambda>kc. keyComponent rt (get_cell primaryRow (primaryColumn kc))) kcs)"

text \<open>\<^verbatim>\<open>referenceMap\<close> is a \<^verbatim>\<open>Map\<close> from composite keys to arrays of reference rows. One
  step of its construction adds a row at the end of the array of its key, a new array
  where the key is new.\<close>

definition referenceMap_add ::
  "js_runtime \<Rightarrow> key_col list \<Rightarrow> (string \<rightharpoonup> row list) \<Rightarrow> row \<Rightarrow> (string \<rightharpoonup> row list)" where
  "referenceMap_add rt kcs m refRow =
     (let compositeKey = refCompositeKey rt kcs refRow
      in case m compositeKey of
           None \<Rightarrow> m(compositeKey \<mapsto> [refRow])
         | Some rs \<Rightarrow> m(compositeKey \<mapsto> rs @ [refRow]))"

definition referenceMap ::
  "js_runtime \<Rightarrow> key_col list \<Rightarrow> row list \<Rightarrow> (string \<rightharpoonup> row list)" where
  "referenceMap rt kcs filteredReferenceData =
     foldl (referenceMap_add rt kcs) Map.empty filteredReferenceData"

subsection \<open>The join\<close>

text \<open>The merged row of a match starts as a copy of the primary row and gets every
  reference column under the name \<^verbatim>\<open>ref_\<close> + header; both branches of the source's
  \<^verbatim>\<open>if\<close> make the same assignment.\<close>

definition mergedRow_match :: "string list \<Rightarrow> string list \<Rightarrow> row \<Rightarrow> row \<Rightarrow> row" where
  "mergedRow_match refHeaders primaryHeaders primaryRow refRow =
     foldl (\<lambda>mergedRow header.
              if header \<in> set primaryHeaders
              then set_cell (''ref_'' @ header) (get_cell refRow header) mergedRow
              else set_cell (''ref_'' @ header) (get_cell refRow header) mergedRow)
       primaryRow refHeaders"

definition mergedRow_left :: "string list \<Rightarrow> string list \<Rightarrow> row \<Rightarrow> row" where
  "mergedRow_left refHeaders primaryHeaders primaryRow =
     foldl (\<lambda>mergedRow header.
              if header \<notin> set primaryHeaders
              then set_cell (''ref_'' @ header) JNull mergedRow
              else set_cell (''ref_'' @ header) JNull mergedRow)
       primaryRow refHeaders"

text \<open>One round of \<^verbatim>\<open>primaryData.forEach\<close>, on the state \<^verbatim>\<open>joinedData\<close> and
  \<^verbatim>\<open>matchedPrimaryKeys\<close> (a \<^verbatim>\<open>Set\<close>, here the list of its elements).\<close>

definition join_step ::
  "js_runtime \<Rightarrow> key_col list \<Rightarrow> string list \<Rightarrow> string list \<Rightarrow> (string \<rightharpoonup> row list) \<Rightarrow> string
     \<Rightarrow> row list \<times> string list \<Rightarrow> row \<Rightarrow> row list \<times> string list" where
  "join_step rt kcs refHeaders primaryHeaders refMap jt st primaryRow =
     (let (joinedData, matchedPrimaryKeys) = st;
          compositeKey = primaryCompositeKey rt kcs primaryRow;
          matchingRefRows = refMap compositeKey
      in if matchingRefRows \<noteq> None \<and> length (the matchingRefRows) > 0 then
           (joinedData @
              map (mergedRow_match refHeaders primaryHeaders primaryRow) (the matchingRefRows),
            List.insert compositeKey matchedPrimaryKeys)
         else if jt = ''left'' then
           (joinedData @ [mergedRow_left refHeaders primaryHeaders primaryRow],
            matchedPrimaryKeys)
         else (joinedData, matchedPrimaryKeys))"

text \<open>Step 1 of the handler filters the reference rows when conditions are given, and
  step 3 runs the loop over the primary rows from empty \<^verbatim>\<open>joinedData\<close> and
  \<^verbatim>\<open>matchedPrimaryKeys\<close>.\<close>

definition filterReference ::
  "js_runtime \<Rightarrow> row list \<Rightarrow> filter_cond list option \<Rightarrow> string \<Rightarrow> row list" where
  "filterReference rt refs fcs lop =
     (if fcs \<noteq> None \<and> length (the fcs) > 0 then applyFiltersWithLogic rt refs fcs lop
      else refs)"

definition joinData ::
  "js_runtime \<Rightarrow> key_col list \<Rightarrow> string list \<Rightarrow> string list \<Rightarrow> (string \<rightharpoonup> row list) \<Rightarrow> string
     \<Rightarrow> row list \<Rightarrow> row list \<times> string list" where
  "joinData rt kcs refHeaders primaryHeaders refMap jt prims =
     foldl (join_step rt kcs refHeaders primaryHeaders refMap jt) ([], []) prims"

text \<open>
  The handler. A field of the request body that is missing is \<open>None\<close>; \<^verbatim>\<open>joinType\<close>
  and \<^verbatim>\<open>logicOperator\<close> then take their defaults, \<^verbatim>\<open>'inner'\<close> and \<^verbatim>\<open>'AND'\<close>. The
  handler first validates the request, replying with status 400 at the first check that
  fails, and then computes the response.
\<close>

definition validate_request :: "ref_request \<Rightarrow> error option" where
  "validate_request req =
     (if referenceData req = None \<or> length (the (referenceData req)) = 0 then
        Some (BadRequest ''Reference data must be provided as a non-empty array'')
      else if primaryData req = None \<or> length (the (primaryData req)) = 0 then
        Some (BadRequest ''Primary data must be provided as a non-empty array'')
      else if keyColumns req = None \<or> length (the (keyColumns req)) = 0 then
        Some (BadRequest ''At least one key column must be specified'')
      else if length (the (referenceData req)) = 0 \<or> length (the (primaryData req)) = 0 then
        Some (BadRequest ''Both datasets must contain at least one row'')
      else
        check_keyColumns (object_keys (hd (the (referenceData req))))
          (object_keys (hd (the (primaryData req)))) (the (keyColumns req)))"

definition join_response :: "js_runtime \<Rightarrow> ref_request \<Rightarrow> ref_response" where
  "join_response rt req =
     (let jt = (case joinType req of None \<Rightarrow> ''inner'' | Some j \<Rightarrow> j);
          lop = (case logicOperator req of None \<Rightarrow> ''AND'' | Some l \<Rightarrow> l);
          refs = the (referenceData req);
          prims = the (primaryData req);
          kcs = the (keyColumns req);
          refHeaders = object_keys (hd refs);
          primaryHeaders = object_keys (hd prims);
          filteredReferenceData = filterReference rt refs (filterConditions req) lop;
          refMap = referenceMap rt kcs filteredReferenceData;
          (joinedData, matchedPrimaryKeys) =
            joinData rt kcs refHeaders primaryHeaders refMap jt prims;
          allHeaders = primaryHeaders @ map (\<lambda>header. ''ref_'' @ header) refHeaders
      in
      if page req \<noteq> None \<and> pageSize req \<noteq> None then
        (let (paginatedData, info) = paginate joinedData (the (page req)) (the (pageSize req))
         in \<lparr>data = paginatedData, headers = allHeaders,
             totalRows = length joinedData,
             originalPrimaryRows = length prims,
             filteredRefRows = length filteredReferenceData,
             matchedRows = length matchedPrimaryKeys,
             paging = Some info\<rparr>)
      else
        \<lparr>data = joinedData, headers = allHeaders,
         totalRows = length joinedData,
         originalPrimaryRows = length prims,
         filteredRefRows = length filteredReferenceData,
         matchedRows = length matchedPrimaryKeys,
         paging = None\<rparr>)"

definition reference_filter :: "js_runtime \<Rightarrow> ref_request \<Rightarrow> error + ref_response" where
  "reference_filter rt req =
     (case validate_request req of
        Some e \<Rightarrow> Inl e
      | None \<Rightarrow> Inr (join_response rt req))"

section \<open>Notions used in the statements\<close>

text \<open>
  The reference rows that match a primary row: those rows of the filtered reference set
  whose composite key is equal, as a string, to the composite key of the primary row, in
  the order of the reference set.
\<close>

definition matching_rows :: "js_runtime \<Rightarrow> key_col list \<Rightarrow> row list \<Rightarrow> row \<Rightarrow> row list" where
  "matching_rows rt kcs frefs primaryRow =
     filter (\<lambda>refRow. refCompositeKey rt kcs refRow = primaryCompositeKey rt kcs primaryRow) frefs"

text \<open>The rows that one primary row contributes to the output of the join, in terms of
  its matching rows.\<close>

definition emitted_rows ::
  "js_runtime \<Rightarrow> key_col list \<Rightarrow> string list \<Rightarrow> string list \<Rightarrow> row list \<Rightarrow> string \<Rightarrow> row
     \<Rightarrow> row list" where
  "emitted_rows rt kcs refHeaders primaryHeaders frefs jt primaryRow =
     (if matching_rows rt kcs frefs primaryRow \<noteq> []
        then map (mergedRow_match refHeaders primaryHeaders primaryRow)
               (matching_rows rt kcs frefs primaryRow)
      else if jt = ''left'' then [mergedRow_left refHeaders primaryHeaders primaryRow]
      else [])"

text \<open>The seven conditions of the numeric family.\<close>

definition numeric_family :: "string list" where
  "numeric_family =
     [''equals'', ''notEquals'', ''greaterThan'', ''lessThan'', ''greaterThanOrEqual'',
      ''lessThanOrEqual'', ''between'']"

text \<open>The names of the properties of \<^verbatim>\<open>Object.prototype\<close>, which every row inherits, in
  the order of \<^verbatim>\<open>Object.getOwnPropertyNames\<close>.\<close>

definition Object_prototype_names :: "string list" where
  "Object_prototype_names =
     [''constructor'', ''__defineGetter__'', ''__defineSetter__'', ''hasOwnProperty'',
      ''__lookupGetter__'', ''__lookupSetter__'', ''isPrototypeOf'', ''propertyIsEnumerable'',
      ''toString'', ''valueOf'', ''__proto__'', ''toLocaleString'']"

text \<open>
  The white space of Latin-1, character by character, and its letters that have two
  cases: A to Z, and the accented capitals from U+00C0 (A with grave) to U+00DE (thorn)
  without U+00D7, each with its lower case in the same place of the second list. Two
  strings are the same up to case when they have the same length and agree at every
  place, or differ there by the case of a letter.
\<close>

definition white_space :: string where
  "white_space = [CHR 0x09, CHR 0x0A, CHR 0x0B, CHR 0x0C, CHR 0x0D, CHR 0x20, CHR 0xA0]"

definition upper_case :: string where
  "upper_case = ''ABCDEFGHIJKLMNOPQRSTUVWXYZ'' @
     [CHR 0xC0, CHR 0xC1, CHR 0xC2, CHR 0xC3, CHR 0xC4, CHR 0xC5, CHR 0xC6, CHR 0xC7,
      CHR 0xC8, CHR 0xC9, CHR 0xCA, CHR 0xCB, CHR 0xCC, CHR 0xCD, CHR 0xCE, CHR 0xCF,
      CHR 0xD0, CHR 0xD1, CHR 0xD2, CHR 0xD3, CHR 0xD4, CHR 0xD5, CHR 0xD6,
      CHR 0xD8, CHR 0xD9, CHR 0xDA, CHR 0xDB, CHR 0xDC, CHR 0xDD, CHR 0xDE]"

definition lower_case :: string where
  "lower_case = ''abcdefghijklmnopqrstuvwxyz'' @
     [CHR 0xE0, CHR 0xE1, CHR 0xE2, CHR 0xE3, CHR 0xE4, CHR 0xE5, CHR 0xE6, CHR 0xE7,
      CHR 0xE8, CHR 0xE9, CHR 0xEA, CHR 0xEB, CHR 0xEC, CHR 0xED, CHR 0xEE, CHR 0xEF,
      CHR 0xF0, CHR 0xF1, CHR 0xF2, CHR 0xF3, CHR 0xF4, CHR 0xF5, CHR 0xF6,
      CHR 0xF8, CHR 0xF9, CHR 0xFA, CHR 0xFB, CHR 0xFC, CHR 0xFD, CHR 0xFE]"

definition blank :: "string \<Rightarrow> bool" where
  "blank s = list_all (\<lambda>c. c \<in> set white_space) s"

definition same_up_to_case :: "string \<Rightarrow> string \<Rightarrow> bool" where
  "same_up_to_case s t =
     list_all2 (\<lambda>c d. c = d \<or> (c, d) \<in> set (zip upper_case lower_case)
                          \<or> (d, c) \<in> set (zip upper_case lower_case)) s t"

text \<open>
  A join on two key pairs, the first between the columns \<open>a\<close> and \<open>x\<close> and the second
  between \<open>b\<close> and \<open>y\<close>, and three reference rows: the values \<open>X\<close> and 1, the values
  \<open>x\<close> and 2, and the values 1 and \<open>x\<close>.
\<close>

definition pair_keys :: "key_col list" where
  "pair_keys = [\<lparr>refColumn = ''a'', primaryColumn = ''x''\<rparr>,
                \<lparr>refColumn = ''b'', primaryColumn = ''y''\<rparr>]"

definition pair_refs :: "row list" where
  "pair_refs =
     [[(''a'', JStr ''X ''), (''b'', JNum (Dec 1 0))],
      [(''a'', JStr ''x''), (''b'', JNum (Dec 2 0))],
      [(''a'', JNum (Dec 1 0)), (''b'', JStr ''x'')]]"

text \<open>
  Evaluating the model at a concrete input needs a concrete runtime. None of the inputs
  evaluated below holds a date, and the one date condition among them is on a missing
  cell, where it is false with every runtime; the runtime used for them takes every date
  string as invalid.
\<close>

definition sample_runtime :: js_runtime where
  "sample_runtime =
     \<lparr>date_parse = (\<lambda>s. None),
      date_toString = (\<lambda>t. ''Invalid Date''),
      date_toDateString = (\<lambda>t. ''Invalid Date'')\<rparr>"

text \<open>
  Scenarios B and C of the specification: one reference row, two primary rows, joined on
  the column \<open>id\<close>; the join type is left open.
\<close>

definition scenario_request :: "string option \<Rightarrow> ref_request" where
  "scenario_request jt =
     \<lparr>referenceData = Some [[(''id'', JStr ''A1''), (''region'', JStr ''East'')]],
      primaryData = Some [[(''id'', JStr ''a1''), (''name'', JStr ''Bob'')],
                          [(''id'', JStr ''B2''), (''name'', JStr ''Sue'')]],
      keyColumns = Some [\<lparr>refColumn = ''id'', primaryColumn = ''id''\<rparr>],
      filterConditions = None,
      joinType = jt,
      logicOperator = None,
      page = None,
      pageSize = None\<rparr>"

section \<open>Evaluation and unfolding lemmas\<close>

lemmas eval_defs =
  sample_runtime_def get_cell_def isNaN_def isFinite_def parseFloat_def scan_decimal_def
  scan_sign_def scan_exponent_def scan_fraction_def trimStart_def trim_def is_space_def
  is_digit_def digits_val_def digit_value_def index_of_def startsWith_def dec_val_def
  toLowerCase_def char_toLowerCase_def is_upper_def char_of_def bit_Suc_0_iff binary64_def
  cellValueStr_def Object_prototype_def prototype_functions_def

text \<open>What \<open>evaluateFilter\<close> computes for each condition of the numeric family and for
  the two emptiness checks.\<close>

lemma evaluateFilter_equals:
  "condition f = ''equals'' \<Longrightarrow> evaluateFilter rt r f =
     (\<not> isNaN (parseFloat rt (get_cell r (column f))) \<and> \<not> isNaN (parseFloat rt (fvalue f)) \<and>
      num_eq (parseFloat rt (get_cell r (column f))) (parseFloat rt (fvalue f)))"
  by (simp add: evaluateFilter_def Let_def)

lemma evaluateFilter_notEquals:
  "condition f = ''notEquals'' \<Longrightarrow> evaluateFilter rt r f =
     (isNaN (parseFloat rt (get_cell r (column f))) \<or> isNaN (parseFloat rt (fvalue f)) \<or>
      \<not> num_eq (parseFloat rt (get_cell r (column f))) (parseFloat rt (fvalue f)))"
  by (simp add: evaluateFilter_def Let_def)

lemma evaluateFilter_greaterThan:
  "condition f = ''greaterThan'' \<Longrightarrow> evaluateFilter rt r f =
     (\<not> isNaN (parseFloat rt (get_cell r (column f))) \<and> \<not> isNaN (parseFloat rt (fvalue f)) \<and>
      num_less (parseFloat rt (fvalue f)) (parseFloat rt (get_cell r (column f))))"
  by (simp add: evaluateFilter_def Let_def)

lemma evaluateFilter_lessThan:
  "condition f = ''lessThan'' \<Longrightarrow> evaluateFilter rt r f =
     (\<not> isNaN (parseFloat rt (get_cell r (column f))) \<and> \<not> isNaN (parseFloat rt (fvalue f)) \<and>
      num_less (parseFloat rt (get_cell r (column f))) (parseFloat rt (fvalue f)))"
  by (simp add: evaluateFilter_def Let_def)

lemma evaluateFilter_greaterThanOrEqual:
  "condition f = ''greaterThanOrEqual'' \<Longrightarrow> evaluateFilter rt r f =
     (\<not> isNaN (parseFloat rt (get_cell r (column f))) \<and> \<not> isNaN (parseFloat rt (fvalue f)) \<and>
      num_le (parseFloat rt (fvalue f)) (parseFloat rt (get_cell r (column f))))"
  by (simp add: evaluateFilter_def Let_def)

lemma evaluateFilter_lessThanOrEqual:
  "condition f = ''lessThanOrEqual'' \<Longrightarrow> evaluateFilter rt r f =
     (\<not> isNaN (parseFloat rt (get_cell r (column f))) \<and> \<not> isNaN (parseFloat rt (fvalue f)) \<and>
      num_le (parseFloat rt (get_cell r (column f))) (parseFloat rt (fvalue f)))"
  by (simp add: evaluateFilter_def Let_def)

lemma evaluateFilter_between:
  "condition f = ''between'' \<Longrightarrow> evaluateFilter rt r f =
     (\<not> isNaN (parseFloat rt (get_cell r (column f))) \<and> \<not> isNaN (parseFloat rt (fvalue f)) \<and>
      \<not> isNaN (parseFloat rt (fvalue2 f)) \<and>
      num_le (parseFloat rt (fvalue f)) (parseFloat rt (get_cell r (column f))) \<and>
      num_le (parseFloat rt (get_cell r (column f))) (parseFloat rt (fvalue2 f)))"
  by (simp add: evaluateFilter_def Let_def)

lemma evaluateFilter_isEmpty:
  "condition f = ''isEmpty'' \<Longrightarrow> evaluateFilter rt r f =
     (get_cell r (column f) = JNull \<or> get_cell r (column f) = JUndefined \<or>
      get_cell r (column f) = JStr '''' \<or>
      trim (cellValueStr rt (get_cell r (column f))) = '''')"
  by (simp add: evaluateFilter_def Let_def)

lemma evaluateFilter_isNotEmpty:
  "condition f = ''isNotEmpty'' \<Longrightarrow> evaluateFilter rt r f =
     (get_cell r (column f) \<noteq> JNull \<and> get_cell r (column f) \<noteq> JUndefined \<and>
      get_cell r (column f) \<noteq> JStr '''' \<and>
      trim (cellValueStr rt (get_cell r (column f))) \<noteq> '''')"
  by (simp add: evaluateFilter_def Let_def)

lemmas evaluateFilter_numeric =
  evaluateFilter_equals evaluateFilter_notEquals evaluateFilter_greaterThan
  evaluateFilter_lessThan evaluateFilter_greaterThanOrEqual evaluateFilter_lessThanOrEqual
  evaluateFilter_between

text \<open>The same for the text family and the date family.\<close>

lemma evaluateFilter_contains:
  "condition f = ''contains'' \<Longrightarrow> evaluateFilter rt r f =
     str_includes (toLowerCase (cellValueStr rt (get_cell r (column f))))
       (toLowerCase (toString rt (fvalue f)))"
  by (simp add: evaluateFilter_def Let_def)

lemma evaluateFilter_doesNotContain:
  "condition f = ''doesNotContain'' \<Longrightarrow> evaluateFilter rt r f =
     (\<not> str_includes (toLowerCase (cellValueStr rt (get_cell r (column f))))
          (toLowerCase (toString rt (fvalue f))))"
  by (simp add: evaluateFilter_def Let_def)

lemma evaluateFilter_startsWith:
  "condition f = ''startsWith'' \<Longrightarrow> evaluateFilter rt r f =
     startsWith (toLowerCase (cellValueStr rt (get_cell r (column f))))
       (toLowerCase (toString rt (fvalue f)))"
  by (simp add: evaluateFilter_def Let_def)

lemma evaluateFilter_endsWith:
  "condition f = ''endsWith'' \<Longrightarrow> evaluateFilter rt r f =
     endsWith (toLowerCase (cellValueStr rt (get_cell r (column f))))
       (toLowerCase (toString rt (fvalue f)))"
  by (simp add: evaluateFilter_def Let_def)

lemma evaluateFilter_exactMatch:
  "condition f = ''exactMatch'' \<Longrightarrow> evaluateFilter rt r f =
     (cellValueStr rt (get_cell r (column f)) = toString rt (fvalue f))"
  by (simp add: evaluateFilter_def Let_def)

lemma evaluateFilter_before:
  "condition f = ''before'' \<Longrightarrow> evaluateFilter rt r f =
     (newDate rt (get_cell r (column f)) \<noteq> None \<and> newDate rt (fvalue f) \<noteq> None \<and>
      date_less (newDate rt (get_cell r (column f))) (newDate rt (fvalue f)))"
  by (simp add: evaluateFilter_def Let_def)

lemma evaluateFilter_after:
  "condition f = ''after'' \<Longrightarrow> evaluateFilter rt r f =
     (newDate rt (get_cell r (column f)) \<noteq> None \<and> newDate rt (fvalue f) \<noteq> None \<and>
      date_less (newDate rt (fvalue f)) (newDate rt (get_cell r (column f))))"
  by (simp add: evaluateFilter_def Let_def)

lemma evaluateFilter_on:
  "condition f = ''on'' \<Longrightarrow> evaluateFilter rt r f =
     (newDate rt (get_cell r (column f)) \<noteq> None \<and> newDate rt (fvalue f) \<noteq> None \<and>
      date_toDateString rt (newDate rt (get_cell r (column f))) =
        date_toDateString rt (newDate rt (fvalue f)))"
  by (simp add: evaluateFilter_def Let_def)

lemma evaluateFilter_betweenDates:
  "condition f = ''betweenDates'' \<Longrightarrow> evaluateFilter rt r f =
     (newDate rt (get_cell r (column f)) \<noteq> None \<and> newDate rt (fvalue f) \<noteq> None \<and>
      newDate rt (fvalue2 f) \<noteq> None \<and>
      date_le (newDate rt (fvalue f)) (newDate rt (get_cell r (column f))) \<and>
      date_le (newDate rt (get_cell r (column f))) (newDate rt (fvalue2 f)))"
  by (simp add: evaluateFilter_def Let_def)

lemma parseFloat_undefined: "parseFloat rt JUndefined = NaN"
  by (simp add: parseFloat_def scan_decimal_def scan_sign_def scan_fraction_def trimStart_def
      is_space_def is_digit_def startsWith_def)

lemma startsWith_empty: "startsWith '''' t = (t = '''')"
  by (auto simp: startsWith_def)

lemma endsWith_empty: "endsWith '''' t = (t = '''')"
  by (auto simp: endsWith_def)

text \<open>A name that is neither a property of the row nor one of \<^verbatim>\<open>Object.prototype\<close> reads
  as \<^verbatim>\<open>undefined\<close>.\<close>

lemma Object_prototype_undefined:
  "c \<notin> set Object_prototype_names \<Longrightarrow> Object_prototype c = JUndefined"
  by (simp add: Object_prototype_names_def Object_prototype_def prototype_functions_def)

lemma get_cell_missing:
  "c \<notin> set (object_keys r) \<Longrightarrow> c \<notin> set Object_prototype_names \<Longrightarrow> get_cell r c = JUndefined"
  by (simp add: get_cell_def object_keys_def map_of_eq_None_iff [THEN iffD2]
      Object_prototype_undefined)

text \<open>Scenario A of the specification: the amount 150 passes \<open>greaterThan 100\<close>, the
  text \<open>abc\<close> does not.\<close>

lemma scenario_A_included:
  "evaluateFilter sample_runtime [(''amt'', JStr ''150'')]
     \<lparr>column = ''amt'', condition = ''greaterThan'', fvalue = JStr ''100'', fvalue2 = JUndefined\<rparr>"
  by (simp add: evaluateFilter_greaterThan eval_defs)

lemma scenario_A_excluded:
  "\<not> evaluateFilter sample_runtime [(''amt'', JStr ''abc'')]
     \<lparr>column = ''amt'', condition = ''greaterThan'', fvalue = JStr ''100'', fvalue2 = JUndefined\<rparr>"
  by (simp add: evaluateFilter_greaterThan eval_defs)

text \<open>\<^verbatim>\<open>parseFloat\<close> reads a leading decimal literal and ignores what follows it; a
  string with no such literal gives \<^verbatim>\<open>NaN\<close>, and \<open>Infinity\<close> is a literal.\<close>

lemma parseFloat_examples:
  "parseFloat sample_runtime (JStr ''12abc'') = Dec 12 0"
  "parseFloat sample_runtime (JStr '' 1.50'') = Dec 150 (- 2)"
  "parseFloat sample_runtime (JStr ''abc'') = NaN"
  "parseFloat sample_runtime (JStr '''') = NaN"
  "parseFloat sample_runtime JNull = NaN"
  "parseFloat sample_runtime (JStr ''-Infinity'') = NegInfinity"
  "parseFloat sample_runtime (JNum (Dec 15 (- 1))) = Dec 15 (- 1)"
  "parseFloat sample_runtime (JStr ''1e400'') = PosInfinity"
  "parseFloat sample_runtime (JStr ''-1e400'') = NegInfinity"
  "parseFloat sample_runtime (JStr ''1e-400'') = Dec 0 0"
  "parseFloat sample_runtime (JStr ''1e308'') = Dec 1 308"
  "parseFloat sample_runtime (JObject ''[object Object]'') = NaN"
  by (simp_all add: eval_defs positive_toString_def digit_char_def)

section \<open>The predicate evaluator\<close>

text \<open>
  Claim C3, with the parse failure read as the code reads it. For every row and every
  condition of the numeric family (equals, notEquals, greaterThan, lessThan,
  greaterThanOrEqual, lessThanOrEqual, between): if \<^verbatim>\<open>parseFloat\<close> of the cell or of a
  comparison value (\<^verbatim>\<open>value\<close>, and \<^verbatim>\<open>value2\<close> for between) is \<^verbatim>\<open>NaN\<close>, the predicate
  is false, except for notEquals, where it is true. The guards of the code are
  \<^verbatim>\<open>isNaN\<close> tests: an operand that parses to an infinity is not a failure.
\<close>

theorem numeric_family_NaN:
  assumes "condition f \<in> set numeric_family"
    and "isNaN (parseFloat rt (get_cell r (column f))) \<or> isNaN (parseFloat rt (fvalue f))
         \<or> (condition f = ''between'' \<and> isNaN (parseFloat rt (fvalue2 f)))"
  shows "evaluateFilter rt r f = (condition f = ''notEquals'')"
proof -
  consider "condition f = ''equals''" | "condition f = ''notEquals''"
    | "condition f = ''greaterThan''" | "condition f = ''lessThan''"
    | "condition f = ''greaterThanOrEqual''" | "condition f = ''lessThanOrEqual''"
    | "condition f = ''between''"
    using assms(1) by (auto simp: numeric_family_def)
  then show ?thesis
  proof cases
    case 1 with assms(2) show ?thesis by (auto simp: evaluateFilter_equals)
  next
    case 2 with assms(2) show ?thesis by (auto simp: evaluateFilter_notEquals)
  next
    case 3 with assms(2) show ?thesis by (auto simp: evaluateFilter_greaterThan)
  next
    case 4 with assms(2) show ?thesis by (auto simp: evaluateFilter_lessThan)
  next
    case 5 with assms(2) show ?thesis by (auto simp: evaluateFilter_greaterThanOrEqual)
  next
    case 6 with assms(2) show ?thesis by (auto simp: evaluateFilter_lessThanOrEqual)
  next
    case 7 with assms(2) show ?thesis by (auto simp: evaluateFilter_between)
  qed
qed

text \<open>The cell \<open>abc\<close> does not parse: \<open>greaterThan 100\<close> is false on it and
  \<open>notEquals 100\<close> is true.\<close>

theorem numeric_family_NaN_witness:
  "isNaN (parseFloat sample_runtime (get_cell [(''amt'', JStr ''abc'')] ''amt''))
   \<and> evaluateFilter sample_runtime [(''amt'', JStr ''abc'')]
        \<lparr>column = ''amt'', condition = ''greaterThan'', fvalue = JStr ''100'',
         fvalue2 = JUndefined\<rparr>
      = False
   \<and> evaluateFilter sample_runtime [(''amt'', JStr ''abc'')]
        \<lparr>column = ''amt'', condition = ''notEquals'', fvalue = JStr ''100'',
         fvalue2 = JUndefined\<rparr>
      = True"
proof -
  have nan: "isNaN (parseFloat sample_runtime (get_cell [(''amt'', JStr ''abc'')] ''amt''))"
    by (simp add: eval_defs)
  show ?thesis
    using nan
      numeric_family_NaN [of "\<lparr>column = ''amt'', condition = ''greaterThan'',
        fvalue = JStr ''100'', fvalue2 = JUndefined\<rparr>" sample_runtime "[(''amt'', JStr ''abc'')]"]
      numeric_family_NaN [of "\<lparr>column = ''amt'', condition = ''notEquals'',
        fvalue = JStr ''100'', fvalue2 = JUndefined\<rparr>" sample_runtime "[(''amt'', JStr ''abc'')]"]
    by (simp add: numeric_family_def)
qed

text \<open>
  As the claim words it, with every operand that is not a finite number counted as a
  parse failure, it fails: the cell \<open>Infinity\<close> does not parse to a finite number, and
  \<open>greaterThan 5\<close> is true on it.
\<close>

theorem numeric_family_Infinity_counterexample:
  "\<not> isFinite (parseFloat sample_runtime (get_cell [(''amt'', JStr ''Infinity'')] ''amt''))
   \<and> evaluateFilter sample_runtime [(''amt'', JStr ''Infinity'')]
       \<lparr>column = ''amt'', condition = ''greaterThan'', fvalue = JStr ''5'', fvalue2 = JUndefined\<rparr>"
  by (simp add: evaluateFilter_greaterThan eval_defs)

text \<open>
  Claim C10, for the column names that a row does not inherit. Take a row that lacks the
  condition's column, the column's name being none of the twelve names of
  \<^verbatim>\<open>Object.prototype\<close>, and a condition whose comparison values are cells. Then the cell
  read is \<^verbatim>\<open>undefined\<close> and its string \<^verbatim>\<open>cellValueStr\<close> is the empty string; the
  evaluation raises no error and returns a truth value; isEmpty is true and isNotEmpty is
  false; a condition of the numeric family is false unless it is notEquals, which is
  true; contains, startsWith, endsWith and exactMatch are true exactly when the string of
  the comparison value is empty, and doesNotContain when it is not; the conditions of the
  date family are false. A condition outside the numeric, text and date families, which
  reads no comparison value, raises no error whatever the comparison values are.
\<close>

theorem missing_column:
  assumes "column f \<notin> set (object_keys r)"
    and "column f \<notin> set Object_prototype_names"
  shows "get_cell r (column f) = JUndefined
    \<and> cellValueStr rt (get_cell r (column f)) = ''''
    \<and> evaluateFilter_outcome rt r (column f) (condition f) (Value (fvalue f)) (Value (fvalue2 f))
        = Inr (evaluateFilter rt r f)
    \<and> (condition f = ''isEmpty'' \<longrightarrow> evaluateFilter rt r f)
    \<and> (condition f = ''isNotEmpty'' \<longrightarrow> \<not> evaluateFilter rt r f)
    \<and> (condition f \<in> set numeric_family \<longrightarrow>
         evaluateFilter rt r f = (condition f = ''notEquals''))
    \<and> (condition f \<in> set [''contains'', ''startsWith'', ''endsWith'', ''exactMatch''] \<longrightarrow>
         evaluateFilter rt r f = (toString rt (fvalue f) = ''''))
    \<and> (condition f = ''doesNotContain'' \<longrightarrow>
         evaluateFilter rt r f = (toString rt (fvalue f) \<noteq> ''''))
    \<and> (condition f \<in> set [''before'', ''after'', ''on'', ''betweenDates''] \<longrightarrow>
         \<not> evaluateFilter rt r f)
    \<and> (condition f \<notin> set converting_conditions \<longrightarrow>
         evaluateFilter_outcome rt r (column f) (condition f) v v2 = Inr (evaluateFilter rt r f))"
proof -
  have u: "get_cell r (column f) = JUndefined"
    using assms by (rule get_cell_missing)
  have s: "cellValueStr rt (get_cell r (column f)) = ''''"
    by (simp add: u cellValueStr_def)
  have total: "evaluateFilter_outcome rt r (column f) (condition f) (Value (fvalue f))
      (Value (fvalue2 f)) = Inr (evaluateFilter rt r f)"
    by (cases f) (simp add: evaluateFilter_outcome_def)
  have empty: "condition f = ''isEmpty'' \<longrightarrow> evaluateFilter rt r f"
    by (simp add: evaluateFilter_isEmpty u)
  have nonempty: "condition f = ''isNotEmpty'' \<longrightarrow> \<not> evaluateFilter rt r f"
    by (simp add: evaluateFilter_isNotEmpty u)
  have "isNaN (parseFloat rt (get_cell r (column f)))"
    by (simp add: u parseFloat_undefined isNaN_def)
  then have num: "condition f \<in> set numeric_family \<longrightarrow>
      evaluateFilter rt r f = (condition f = ''notEquals'')"
    by (auto simp: numeric_family_def evaluateFilter_numeric)
  have texts: "condition f \<in> set [''contains'', ''startsWith'', ''endsWith'', ''exactMatch''] \<longrightarrow>
      evaluateFilter rt r f = (toString rt (fvalue f) = '''')"
    by (auto simp: evaluateFilter_contains evaluateFilter_startsWith evaluateFilter_endsWith
        evaluateFilter_exactMatch s toLowerCase_def startsWith_empty endsWith_empty)
  have nottxt: "condition f = ''doesNotContain'' \<longrightarrow>
      evaluateFilter rt r f = (toString rt (fvalue f) \<noteq> '''')"
    by (simp add: evaluateFilter_doesNotContain s toLowerCase_def)
  have dates: "condition f \<in> set [''before'', ''after'', ''on'', ''betweenDates''] \<longrightarrow>
      \<not> evaluateFilter rt r f"
    by (auto simp: evaluateFilter_before evaluateFilter_after evaluateFilter_on
        evaluateFilter_betweenDates u TimeClip_def)
  have unread: "condition f \<notin> set converting_conditions \<longrightarrow>
      evaluateFilter_outcome rt r (column f) (condition f) v v2 = Inr (evaluateFilter rt r f)"
    by (cases f)
      (simp add: evaluateFilter_outcome_def converting_conditions_def evaluateFilter_def Let_def)
  show ?thesis
    using u s total empty nonempty num texts nottxt dates unread by blast
qed

text \<open>
  Claim C10 as it is worded fails in two ways. The first row below has the only column
  \<open>name\<close>; the condition is on the column \<open>constructor\<close>, which the row lacks. The cell
  read is the function \<^verbatim>\<open>Object\<close> that every object inherits, its string is the source
  text of the function, isEmpty is false and isNotEmpty is true. The second condition is
  on the column \<open>note\<close>, which the row lacks too, with an object for the comparison value
  whose conversion to a primitive fails: the evaluation of contains raises a
  \<^verbatim>\<open>TypeError\<close>.
\<close>

theorem missing_column_counterexample:
  "''constructor'' \<notin> set (object_keys [(''name'', JStr ''Bob'')])
   \<and> get_cell [(''name'', JStr ''Bob'')] ''constructor''
       = JObject ''function Object() { [native code] }''
   \<and> cellValueStr sample_runtime (get_cell [(''name'', JStr ''Bob'')] ''constructor'')
       = ''function Object() { [native code] }''
   \<and> \<not> evaluateFilter sample_runtime [(''name'', JStr ''Bob'')]
       \<lparr>column = ''constructor'', condition = ''isEmpty'', fvalue = JUndefined,
        fvalue2 = JUndefined\<rparr>
   \<and> evaluateFilter sample_runtime [(''name'', JStr ''Bob'')]
       \<lparr>column = ''constructor'', condition = ''isNotEmpty'', fvalue = JUndefined,
        fvalue2 = JUndefined\<rparr>
   \<and> ''note'' \<notin> set (object_keys [(''name'', JStr ''Bob'')])
   \<and> evaluateFilter_outcome sample_runtime [(''name'', JStr ''Bob'')] ''note'' ''contains''
       Unconvertible (Value JUndefined)
       = Inl (TypeError ''Cannot convert object to primitive value'')"
proof -
  let ?r = "[(''name'', JStr ''Bob'')]"
  have c: "get_cell ?r ''constructor'' = JObject ''function Object() { [native code] }''"
    by (simp add: get_cell_def Object_prototype_def)
  have "\<not> evaluateFilter sample_runtime ?r
       \<lparr>column = ''constructor'', condition = ''isEmpty'', fvalue = JUndefined,
        fvalue2 = JUndefined\<rparr>"
    by (simp add: evaluateFilter_isEmpty c cellValueStr_def trim_def is_space_def)
  moreover have "evaluateFilter sample_runtime ?r
       \<lparr>column = ''constructor'', condition = ''isNotEmpty'', fvalue = JUndefined,
        fvalue2 = JUndefined\<rparr>"
    by (simp add: evaluateFilter_isNotEmpty c cellValueStr_def trim_def is_space_def)
  moreover have "evaluateFilter_outcome sample_runtime ?r ''note'' ''contains''
       Unconvertible (Value JUndefined)
       = Inl (TypeError ''Cannot convert object to primitive value'')"
    by (simp add: evaluateFilter_outcome_def converting_conditions_def)
  ultimately show ?thesis
    by (simp add: c cellValueStr_def object_keys_def)
qed

text \<open>A row with the only column \<open>name\<close>, and conditions on the column \<open>note\<close>.\<close>

theorem missing_column_witness:
  "''note'' \<notin> set (object_keys [(''name'', JStr ''Bob'')])
   \<and> ''note'' \<notin> set Object_prototype_names
   \<and> get_cell [(''name'', JStr ''Bob'')] ''note'' = JUndefined
   \<and> cellValueStr sample_runtime (get_cell [(''name'', JStr ''Bob'')] ''note'') = ''''
   \<and> evaluateFilter_outcome sample_runtime [(''name'', JStr ''Bob'')] ''note'' ''isEmpty''
       (Value (JStr '''')) (Value (JStr '''')) = Inr True
   \<and> evaluateFilter_outcome sample_runtime [(''name'', JStr ''Bob'')] ''note'' ''isEmpty''
       Unconvertible Unconvertible = Inr True
   \<and> evaluateFilter sample_runtime [(''name'', JStr ''Bob'')]
       \<lparr>column = ''note'', condition = ''isEmpty'', fvalue = JStr '''', fvalue2 = JStr ''''\<rparr>
   \<and> \<not> evaluateFilter sample_runtime [(''name'', JStr ''Bob'')]
       \<lparr>column = ''note'', condition = ''isNotEmpty'', fvalue = JStr '''', fvalue2 = JStr ''''\<rparr>
   \<and> \<not> evaluateFilter sample_runtime [(''name'', JStr ''Bob'')]
       \<lparr>column = ''note'', condition = ''lessThan'', fvalue = JStr ''5'', fvalue2 = JStr ''''\<rparr>
   \<and> evaluateFilter sample_runtime [(''name'', JStr ''Bob'')]
       \<lparr>column = ''note'', condition = ''notEquals'', fvalue = JStr ''5'', fvalue2 = JStr ''''\<rparr>
   \<and> \<not> evaluateFilter sample_runtime [(''name'', JStr ''Bob'')]
       \<lparr>column = ''note'', condition = ''contains'', fvalue = JStr ''undefined'',
        fvalue2 = JStr ''''\<rparr>
   \<and> evaluateFilter sample_runtime [(''name'', JStr ''Bob'')]
       \<lparr>column = ''note'', condition = ''exactMatch'', fvalue = JStr '''', fvalue2 = JStr ''''\<rparr>
   \<and> \<not> evaluateFilter sample_runtime [(''name'', JStr ''Bob'')]
       \<lparr>column = ''note'', condition = ''before'', fvalue = JStr ''2024-01-01'',
        fvalue2 = JStr ''''\<rparr>"
proof -
  let ?r = "[(''name'', JStr ''Bob'')]"
  have missing: "''note'' \<notin> set (object_keys ?r)"
    by (simp add: object_keys_def)
  have own: "''note'' \<notin> set Object_prototype_names"
    by (simp add: Object_prototype_names_def)
  have e: "evaluateFilter sample_runtime ?r
       \<lparr>column = ''note'', condition = ''isEmpty'', fvalue = JStr '''', fvalue2 = JStr ''''\<rparr>"
    using missing own
      missing_column [of "\<lparr>column = ''note'', condition = ''isEmpty'', fvalue = JStr '''',
        fvalue2 = JStr ''''\<rparr>" ?r sample_runtime, THEN conjunct2, THEN conjunct2,
        THEN conjunct2]
    by simp
  have u: "get_cell ?r ''note'' = JUndefined"
    using missing own
      missing_column [of "\<lparr>column = ''note'', condition = ''isEmpty'', fvalue = JStr '''',
        fvalue2 = JStr ''''\<rparr>" ?r sample_runtime, THEN conjunct1]
    by simp
  have s: "cellValueStr sample_runtime (get_cell ?r ''note'') = ''''"
    using missing own
      missing_column [of "\<lparr>column = ''note'', condition = ''isEmpty'', fvalue = JStr '''',
        fvalue2 = JStr ''''\<rparr>" ?r sample_runtime, THEN conjunct2, THEN conjunct1]
    by simp
  have t: "evaluateFilter_outcome sample_runtime ?r ''note'' ''isEmpty''
       (Value (JStr '''')) (Value (JStr '''')) = Inr True"
    using missing own e
      missing_column [of "\<lparr>column = ''note'', condition = ''isEmpty'', fvalue = JStr '''',
        fvalue2 = JStr ''''\<rparr>" ?r sample_runtime, THEN conjunct2, THEN conjunct2,
        THEN conjunct1]
    by simp
  have t': "evaluateFilter_outcome sample_runtime ?r ''note'' ''isEmpty''
       Unconvertible Unconvertible = Inr True"
    using missing own e
      missing_column [of "\<lparr>column = ''note'', condition = ''isEmpty'', fvalue = JStr '''',
        fvalue2 = JStr ''''\<rparr>" ?r sample_runtime Unconvertible Unconvertible,
        THEN conjunct2, THEN conjunct2, THEN conjunct2, THEN conjunct2, THEN conjunct2,
        THEN conjunct2, THEN conjunct2, THEN conjunct2, THEN conjunct2]
    by (simp add: converting_conditions_def)
  have ne: "\<not> evaluateFilter sample_runtime ?r
       \<lparr>column = ''note'', condition = ''isNotEmpty'', fvalue = JStr '''', fvalue2 = JStr ''''\<rparr>"
    using missing own
      missing_column [of "\<lparr>column = ''note'', condition = ''isNotEmpty'', fvalue = JStr '''',
        fvalue2 = JStr ''''\<rparr>" ?r sample_runtime, THEN conjunct2, THEN conjunct2,
        THEN conjunct2]
    by simp
  have lt: "\<not> evaluateFilter sample_runtime ?r
       \<lparr>column = ''note'', condition = ''lessThan'', fvalue = JStr ''5'', fvalue2 = JStr ''''\<rparr>"
    using missing own
      missing_column [of "\<lparr>column = ''note'', condition = ''lessThan'', fvalue = JStr ''5'',
        fvalue2 = JStr ''''\<rparr>" ?r sample_runtime, THEN conjunct2, THEN conjunct2,
        THEN conjunct2]
    by (simp add: numeric_family_def)
  have neq: "evaluateFilter sample_runtime ?r
       \<lparr>column = ''note'', condition = ''notEquals'', fvalue = JStr ''5'', fvalue2 = JStr ''''\<rparr>"
    using missing own
      missing_column [of "\<lparr>column = ''note'', condition = ''notEquals'', fvalue = JStr ''5'',
        fvalue2 = JStr ''''\<rparr>" ?r sample_runtime, THEN conjunct2, THEN conjunct2,
        THEN conjunct2]
    by (simp add: numeric_family_def)
  have ct: "\<not> evaluateFilter sample_runtime ?r
       \<lparr>column = ''note'', condition = ''contains'', fvalue = JStr ''undefined'',
        fvalue2 = JStr ''''\<rparr>"
    using missing own
      missing_column [of "\<lparr>column = ''note'', condition = ''contains'',
        fvalue = JStr ''undefined'', fvalue2 = JStr ''''\<rparr>" ?r sample_runtime,
        THEN conjunct2, THEN conjunct2, THEN conjunct2]
    by simp
  have em: "evaluateFilter sample_runtime ?r
       \<lparr>column = ''note'', condition = ''exactMatch'', fvalue = JStr '''', fvalue2 = JStr ''''\<rparr>"
    using missing own
      missing_column [of "\<lparr>column = ''note'', condition = ''exactMatch'', fvalue = JStr '''',
        fvalue2 = JStr ''''\<rparr>" ?r sample_runtime, THEN conjunct2, THEN conjunct2,
        THEN conjunct2]
    by simp
  have bf: "\<not> evaluateFilter sample_runtime ?r
       \<lparr>column = ''note'', condition = ''before'', fvalue = JStr ''2024-01-01'',
        fvalue2 = JStr ''''\<rparr>"
    using missing own
      missing_column [of "\<lparr>column = ''note'', condition = ''before'',
        fvalue = JStr ''2024-01-01'', fvalue2 = JStr ''''\<rparr>" ?r sample_runtime,
        THEN conjunct2, THEN conjunct2, THEN conjunct2]
    by simp
  show ?thesis
    using missing own u s t t' e ne lt neq ct em bf by simp
qed

text \<open>
  The twelve names are the ones to leave out: on a row that lacks a column with one of
  these names the cell read is an object whose string is not blank, so isEmpty is false
  and isNotEmpty is true.
\<close>

lemma inherited_table:
  "list_all (\<lambda>c. case Object_prototype c of JObject s \<Rightarrow> trim s \<noteq> '''' | _ \<Rightarrow> False)
     Object_prototype_names"
  by (simp add: Object_prototype_names_def Object_prototype_def prototype_functions_def
      trim_def is_space_def)

lemma inherited_column:
  assumes "column f \<notin> set (object_keys r)" and "column f \<in> set Object_prototype_names"
  shows "(\<exists>s. get_cell r (column f) = JObject s \<and> trim s \<noteq> '''')
    \<and> (condition f = ''isEmpty'' \<longrightarrow> \<not> evaluateFilter rt r f)
    \<and> (condition f = ''isNotEmpty'' \<longrightarrow> evaluateFilter rt r f)"
proof -
  have "get_cell r (column f) = Object_prototype (column f)"
    using assms(1) by (simp add: get_cell_def object_keys_def map_of_eq_None_iff [THEN iffD2])
  moreover have "case Object_prototype (column f) of JObject s \<Rightarrow> trim s \<noteq> '''' | _ \<Rightarrow> False"
    using assms(2) inherited_table by (auto simp: list_all_iff)
  ultimately obtain s where c: "get_cell r (column f) = JObject s" and t: "trim s \<noteq> ''''"
    by (auto split: cell.splits)
  have "condition f = ''isEmpty'' \<longrightarrow> \<not> evaluateFilter rt r f"
    by (simp add: evaluateFilter_isEmpty c t cellValueStr_def)
  moreover have "condition f = ''isNotEmpty'' \<longrightarrow> evaluateFilter rt r f"
    by (simp add: evaluateFilter_isNotEmpty c t cellValueStr_def)
  ultimately show ?thesis
    using c t by blast
qed

section \<open>The filter engine\<close>

lemma applyFiltersWithLogic_idem:
  "applyFiltersWithLogic rt (applyFiltersWithLogic rt S C lop) C lop =
     applyFiltersWithLogic rt S C lop"
  by (simp add: applyFiltersWithLogic_def split: option.splits)

lemma applyFilters_idem:
  "applyFilters rt (applyFilters rt S C) C = applyFilters rt S C"
  by (simp add: applyFilters_def split: option.splits)

text \<open>
  Claim C7. Filtering is idempotent: for every record set \<open>S\<close>, every list of conditions
  \<open>C\<close> and every logic operator, filtering the filtered set again with \<open>C\<close> changes
  nothing, in \<open>applyFiltersWithLogic\<close> as in \<open>applyFilters\<close>; and filtering with an
  empty list of conditions, or with none, returns \<open>S\<close> itself, the same rows in the same
  order.
\<close>

theorem filtering_idempotent:
  "applyFiltersWithLogic rt (applyFiltersWithLogic rt S C lop) C lop =
     applyFiltersWithLogic rt S C lop
   \<and> applyFilters rt (applyFilters rt S C) C = applyFilters rt S C
   \<and> applyFiltersWithLogic rt S (Some []) lop = S
   \<and> applyFiltersWithLogic rt S None lop = S
   \<and> applyFilters rt S (Some []) = S
   \<and> applyFilters rt S None = S"
  by (simp add: applyFiltersWithLogic_idem applyFilters_idem)
     (simp add: applyFiltersWithLogic_def applyFilters_def)

text \<open>The two rows of scenario A under \<open>greaterThan 100\<close>: one row is left, after one
  pass and after two.\<close>

theorem filtering_idempotent_witness:
  "applyFiltersWithLogic sample_runtime
     (applyFiltersWithLogic sample_runtime
        [[(''amt'', JStr ''150'')], [(''amt'', JStr ''abc'')]]
        (Some [\<lparr>column = ''amt'', condition = ''greaterThan'', fvalue = JStr ''100'',
                fvalue2 = JUndefined\<rparr>]) ''OR'')
     (Some [\<lparr>column = ''amt'', condition = ''greaterThan'', fvalue = JStr ''100'',
             fvalue2 = JUndefined\<rparr>]) ''OR''
   = [[(''amt'', JStr ''150'')]]"
proof -
  have once: "applyFiltersWithLogic sample_runtime
        [[(''amt'', JStr ''150'')], [(''amt'', JStr ''abc'')]]
        (Some [\<lparr>column = ''amt'', condition = ''greaterThan'', fvalue = JStr ''100'',
                fvalue2 = JUndefined\<rparr>]) ''OR'' = [[(''amt'', JStr ''150'')]]"
    using scenario_A_included scenario_A_excluded by (simp add: applyFiltersWithLogic_def)
  then show ?thesis
    using filtering_idempotent [of sample_runtime
        "[[(''amt'', JStr ''150'')], [(''amt'', JStr ''abc'')]]"
        "Some [\<lparr>column = ''amt'', condition = ''greaterThan'', fvalue = JStr ''100'',
                fvalue2 = JUndefined\<rparr>]" "''OR''"]
    by simp
qed

section \<open>The pager\<close>


lemma slice_nat:
  "slice xs (int a) (int a + int b) = take b (drop a xs)"
proof (cases "a \<le> length xs")
  case True
  have "nat (min (int a + int b) (int (length xs)) - int a) = min b (length xs - a)"
    using True by (auto simp: min_def)
  moreover have "take (min b (length xs - a)) (drop a xs) = take b (drop a xs)"
    by (cases "b \<le> length xs - a") (simp_all add: min_def)
  ultimately show ?thesis
    using True by (simp add: slice_def Let_def min_absorb1)
next
  case False
  then show ?thesis
    by (simp add: slice_def Let_def min_absorb2)
qed

lemma slice_from:
  assumes "0 \<le> s" "0 \<le> k"
  shows "slice xs s (s + k) = take (nat k) (drop (nat s) xs)"
  using slice_nat [of xs "nat s" "nat k"] assms by simp

lemma slice_page:
  assumes "1 \<le> p" "1 \<le> k"
  shows "slice xs ((p - 1) * k) ((p - 1) * k + k) = take (nat k) (drop (nat ((p - 1) * k)) xs)"
  using assms by (intro slice_from) simp_all

lemma ceil_quotient_pos:
  "1 \<le> k \<Longrightarrow> ceil_quotient n k = Dec \<lceil>real n / real_of_int k\<rceil> 0"
proof -
  assume "1 \<le> k"
  have "\<lceil>(of_nat n :: rat) / of_int k\<rceil> = - (- int n div k)"
    using ceiling_divide_eq_div [of "int n" k, where 'a = rat] by simp
  moreover have "\<lceil>real n / real_of_int k\<rceil> = - (- int n div k)"
    using ceiling_divide_eq_div [of "int n" k, where 'a = real] by simp
  ultimately show ?thesis
    using \<open>1 \<le> k\<close> by (simp add: ceil_quotient_def)
qed

lemma hasMore_iff:
  assumes "1 \<le> k"
  shows "((p - 1) * k + k < int n) = (p < \<lceil>real n / real_of_int k\<rceil>)"
proof -
  have k: "0 < real_of_int k" using assms by simp
  have "(p < \<lceil>real n / real_of_int k\<rceil>) = (real_of_int p < real n / real_of_int k)"
    by (simp add: less_ceiling_iff)
  also have "\<dots> = (real_of_int p * real_of_int k < real n)"
    using k by (simp add: pos_less_divide_eq)
  also have "\<dots> = (p * k < int n)"
    by (metis of_int_less_iff of_int_mult of_int_of_nat_eq)
  also have "\<dots> = ((p - 1) * k + k < int n)"
    by (simp add: algebra_simps)
  finally show ?thesis by simp
qed


lemma filter_handler_paged:
  "filter_handler rt (Some rs) fs (Some p) (Some k) =
     Inr \<lparr>f_data = fst (paginate (applyFilters rt rs fs) p k),
          f_totalRows = length (applyFilters rt rs fs),
          f_originalRows = length rs,
          f_paging = Some (snd (paginate (applyFilters rt rs fs) p k))\<rparr>"
  by (simp add: filter_handler_def Let_def split: prod.splits)

lemma join_response_paged:
  assumes "page req = Some p" and "pageSize req = Some k"
  shows "join_response rt req =
     (join_response rt (req\<lparr>page := None\<rparr>))
       \<lparr>data := fst (paginate (data (join_response rt (req\<lparr>page := None\<rparr>))) p k),
        paging := Some (snd (paginate (data (join_response rt (req\<lparr>page := None\<rparr>))) p k))\<rparr>"
  using assms by (simp add: join_response_def Let_def split: prod.splits)

lemma reference_filter_paged:
  assumes "page req = Some p" and "pageSize req = Some k"
    and "reference_filter rt (req\<lparr>page := None\<rparr>) = Inr full"
  shows "reference_filter rt req =
     Inr (full\<lparr>data := fst (paginate (data full) p k),
              paging := Some (snd (paginate (data full) p k))\<rparr>)"
proof -
  have v: "validate_request (req\<lparr>page := None\<rparr>) = validate_request req"
    by (simp add: validate_request_def)
  from assms(3) have "validate_request req = None" and "full = join_response rt (req\<lparr>page := None\<rparr>)"
    by (auto simp: reference_filter_def v split: option.splits)
  then show ?thesis
    using join_response_paged [OF assms(1,2), of rt] by (simp add: reference_filter_def)
qed

text \<open>
  Claim C8. For every sequence of rows, page number \<open>p \<ge> 1\<close> and page size \<open>k \<ge> 1\<close>,
  the pagination block returns the contiguous slice from index \<open>(p - 1) * k\<close> up to
  \<open>p * k\<close>, clipped to the sequence; reports \<open>totalPages\<close> as the ceiling of the number
  of rows over \<open>k\<close>; and reports \<open>hasMore\<close> exactly when \<open>p\<close> is less than
  \<open>totalPages\<close>, that is, exactly when the next page has a row. In particular 205 rows
  with page size 50 give 5 pages, 5 rows on page 5, and no more pages after it. Both
  handlers return what this block computes, \<^verbatim>\<open>/api/filter\<close> on the filtered rows and
  \<^verbatim>\<open>/api/reference-filter\<close> on the joined rows.
\<close>

theorem pagination_page:
  assumes "1 \<le> p" and "1 \<le> k"
  shows "paginate rows p k =
      (take (nat k) (drop (nat ((p - 1) * k)) rows),
       \<lparr>currentPage = p,
        totalPages = Dec \<lceil>real (length rows) / real_of_int k\<rceil> 0,
        hasMore = (p < \<lceil>real (length rows) / real_of_int k\<rceil>)\<rparr>)
    \<and> (hasMore (snd (paginate rows p k)) \<longleftrightarrow> fst (paginate rows (p + 1) k) \<noteq> [])
    \<and> (length rows = 205 \<and> p = 5 \<and> k = 50 \<longrightarrow>
         totalPages (snd (paginate rows p k)) = Dec 5 0
         \<and> length (fst (paginate rows p k)) = 5
         \<and> \<not> hasMore (snd (paginate rows p k)))
    \<and> filter_handler rt (Some rs) fs (Some p) (Some k) =
         Inr \<lparr>f_data = fst (paginate (applyFilters rt rs fs) p k),
              f_totalRows = length (applyFilters rt rs fs),
              f_originalRows = length rs,
              f_paging = Some (snd (paginate (applyFilters rt rs fs) p k))\<rparr>
    \<and> (page req = Some p \<and> pageSize req = Some k
         \<and> reference_filter rt (req\<lparr>page := None\<rparr>) = Inr full \<longrightarrow>
         reference_filter rt req =
           Inr (full\<lparr>data := fst (paginate (data full) p k),
                    paging := Some (snd (paginate (data full) p k))\<rparr>))"
proof -
  have main: "paginate rows p k =
      (take (nat k) (drop (nat ((p - 1) * k)) rows),
       \<lparr>currentPage = p,
        totalPages = Dec \<lceil>real (length rows) / real_of_int k\<rceil> 0,
        hasMore = (p < \<lceil>real (length rows) / real_of_int k\<rceil>)\<rparr>)"
    using assms
    by (simp add: paginate_def Let_def slice_page ceil_quotient_pos hasMore_iff)
  have p1: "1 \<le> p + 1" using assms by simp
  have next_page: "fst (paginate rows (p + 1) k) = take (nat k) (drop (nat (p * k)) rows)"
    using slice_page [OF p1 assms(2), of rows] by (simp add: paginate_def Let_def)
  have "(fst (paginate rows (p + 1) k) \<noteq> []) = (p * k < int (length rows))"
  proof -
    have "0 \<le> p * k" using assms by simp
    then show ?thesis
      using assms(2) by (auto simp: next_page)
  qed
  moreover have "hasMore (snd (paginate rows p k)) = (p * k < int (length rows))"
    by (simp add: paginate_def Let_def algebra_simps)
  ultimately have more: "hasMore (snd (paginate rows p k)) \<longleftrightarrow> fst (paginate rows (p + 1) k) \<noteq> []"
    by simp
  have ex: "length rows = 205 \<and> p = 5 \<and> k = 50 \<longrightarrow>
         totalPages (snd (paginate rows p k)) = Dec 5 0
         \<and> length (fst (paginate rows p k)) = 5
         \<and> \<not> hasMore (snd (paginate rows p k))"
  proof (intro impI)
    assume h: "length rows = 205 \<and> p = 5 \<and> k = 50"
    show "totalPages (snd (paginate rows p k)) = Dec 5 0
         \<and> length (fst (paginate rows p k)) = 5
         \<and> \<not> hasMore (snd (paginate rows p k))"
      unfolding main using h by simp
  qed
  show ?thesis
    using main more ex filter_handler_paged [of rt rs fs p k]
      reference_filter_paged [of req p k rt full]
    by blast
qed

text \<open>Page 5 of 205 rows by 50.\<close>

theorem pagination_page_witness:
  "paginate (replicate 205 [(''id'', JNum (Dec 7 0))]) 5 50 =
     (replicate 5 [(''id'', JNum (Dec 7 0))],
      \<lparr>currentPage = 5, totalPages = Dec 5 0, hasMore = False\<rparr>)"
proof -
  have "take 50 (drop 200 (replicate 205 [(''id'', JNum (Dec 7 0))])) = replicate 5 [(''id'', JNum (Dec 7 0))]"
    by simp
  then show ?thesis
    using pagination_page [of 5 50 "replicate 205 [(''id'', JNum (Dec 7 0))]"]
    by simp
qed

section \<open>The join engine\<close>

text \<open>The lookup map holds, for every key, the reference rows with that key in their
  order; the loop over the primary rows appends, for each of them, the rows that
  \<open>emitted_rows\<close> describes.\<close>

lemma foldl_referenceMap_add:
  "foldl (referenceMap_add rt kcs) m rs k =
     (case m k of
        None \<Rightarrow> (if filter (\<lambda>r. refCompositeKey rt kcs r = k) rs = [] then None
                 else Some (filter (\<lambda>r. refCompositeKey rt kcs r = k) rs))
      | Some old \<Rightarrow> Some (old @ filter (\<lambda>r. refCompositeKey rt kcs r = k) rs))"
  by (induction rs arbitrary: m) (auto simp: referenceMap_add_def Let_def split: option.splits)

lemma referenceMap_lookup:
  "referenceMap rt kcs frefs k =
     (if filter (\<lambda>r. refCompositeKey rt kcs r = k) frefs = [] then None
      else Some (filter (\<lambda>r. refCompositeKey rt kcs r = k) frefs))"
  by (simp add: referenceMap_def foldl_referenceMap_add)

lemma join_step_rows:
  "fst (join_step rt kcs rh ph (referenceMap rt kcs frefs) jt (acc, ks) p) =
     acc @ emitted_rows rt kcs rh ph frefs jt p"
  by (simp add: join_step_def Let_def referenceMap_lookup emitted_rows_def matching_rows_def)

lemma foldl_join_step_rows:
  "fst (foldl (join_step rt kcs rh ph (referenceMap rt kcs frefs) jt) st ps) =
     fst st @ concat (map (emitted_rows rt kcs rh ph frefs jt) ps)"
proof (induction ps arbitrary: st)
  case Nil
  then show ?case by simp
next
  case (Cons p ps)
  obtain acc ks where st: "st = (acc, ks)" by (cases st)
  show ?case
    by (simp add: Cons.IH st join_step_rows)
qed

lemma joinData_rows:
  "fst (joinData rt kcs rh ph (referenceMap rt kcs frefs) jt prims) =
     concat (map (emitted_rows rt kcs rh ph frefs jt) prims)"
  by (simp add: joinData_def foldl_join_step_rows)

lemma join_response_fields:
  assumes "referenceData req = Some refs" and "primaryData req = Some prims"
    and "keyColumns req = Some kcs"
  shows "totalRows (join_response rt req) =
      length (fst (joinData rt kcs (object_keys (hd refs)) (object_keys (hd prims))
        (referenceMap rt kcs
           (filterReference rt refs (filterConditions req)
              (case logicOperator req of None \<Rightarrow> ''AND'' | Some l \<Rightarrow> l)))
        (case joinType req of None \<Rightarrow> ''inner'' | Some j \<Rightarrow> j) prims))"
    and "headers (join_response rt req) =
      object_keys (hd prims) @ map (\<lambda>header. ''ref_'' @ header) (object_keys (hd refs))"
    and "page req = None \<or> pageSize req = None \<Longrightarrow> data (join_response rt req) =
      fst (joinData rt kcs (object_keys (hd refs)) (object_keys (hd prims))
        (referenceMap rt kcs
           (filterReference rt refs (filterConditions req)
              (case logicOperator req of None \<Rightarrow> ''AND'' | Some l \<Rightarrow> l)))
        (case joinType req of None \<Rightarrow> ''inner'' | Some j \<Rightarrow> j) prims)"
  using assms by (auto simp: join_response_def Let_def split: prod.splits)

lemma join_step_not_left:
  "jt \<noteq> ''left'' \<Longrightarrow> jt' \<noteq> ''left'' \<Longrightarrow>
     join_step rt kcs rh ph m jt = join_step rt kcs rh ph m jt'"
  by (intro ext) (simp add: join_step_def Let_def split: prod.splits)

lemma joinData_not_left:
  "jt \<noteq> ''left'' \<Longrightarrow> jt' \<noteq> ''left'' \<Longrightarrow>
     joinData rt kcs rh ph m jt prims = joinData rt kcs rh ph m jt' prims"
  by (simp add: joinData_def join_step_not_left [of jt jt'])

lemmas join_defs =
  reference_filter_def validate_request_def join_response_def joinData_def join_step_def
  referenceMap_def referenceMap_add_def refCompositeKey_def primaryCompositeKey_def
  keyComponent_def mergedRow_match_def mergedRow_left_def filterReference_def object_keys_def
  quoted_def Let_def

text \<open>Scenarios B and C of the specification, evaluated.\<close>

lemma scenario_B:
  "reference_filter sample_runtime (scenario_request (Some ''inner'')) =
     Inr \<lparr>data = [[(''id'', JStr ''a1''), (''name'', JStr ''Bob''),
                    (''ref_id'', JStr ''A1''), (''ref_region'', JStr ''East'')]],
          headers = [''id'', ''name'', ''ref_id'', ''ref_region''],
          totalRows = 1, originalPrimaryRows = 2, filteredRefRows = 1, matchedRows = 1,
          paging = None\<rparr>"
  by (simp add: scenario_request_def join_defs eval_defs)

lemma scenario_C:
  "reference_filter sample_runtime (scenario_request (Some ''left'')) =
     Inr \<lparr>data = [[(''id'', JStr ''a1''), (''name'', JStr ''Bob''),
                    (''ref_id'', JStr ''A1''), (''ref_region'', JStr ''East'')],
                   [(''id'', JStr ''B2''), (''name'', JStr ''Sue''),
                    (''ref_id'', JNull), (''ref_region'', JNull)]],
          headers = [''id'', ''name'', ''ref_id'', ''ref_region''],
          totalRows = 2, originalPrimaryRows = 2, filteredRefRows = 1, matchedRows = 1,
          paging = None\<rparr>"
  by (simp add: scenario_request_def join_defs eval_defs)


lemma emitted_rows_not_left:
  "jt \<noteq> ''left'' \<Longrightarrow> emitted_rows rt kcs rh ph frefs jt =
     (\<lambda>p. map (mergedRow_match rh ph p) (matching_rows rt kcs frefs p))"
  by (intro ext) (simp add: emitted_rows_def)

lemma concat_map_nonempty:
  "concat (map (\<lambda>x. map (g x) (f x)) xs) =
     concat (map (\<lambda>x. map (g x) (f x)) (filter (\<lambda>x. f x \<noteq> []) xs))"
  by (induction xs) auto

lemma reference_filter_Inr:
  "reference_filter rt req = Inr resp \<Longrightarrow> resp = join_response rt req"
  by (simp add: reference_filter_def split: option.splits)

lemma reference_filter_not_left:
  assumes "jt \<noteq> Some ''left''"
  shows "reference_filter rt (req\<lparr>joinType := jt\<rparr>) =
         reference_filter rt (req\<lparr>joinType := Some ''inner''\<rparr>)"
proof -
  have v: "validate_request (req\<lparr>joinType := jt\<rparr>) =
           validate_request (req\<lparr>joinType := Some ''inner''\<rparr>)"
    by (simp add: validate_request_def)
  have j: "(case jt of None \<Rightarrow> ''inner'' | Some j \<Rightarrow> j) \<noteq> ''left''"
    using assms by (cases jt) auto
  have eq: "joinData rt kcs rh ph m (case jt of None \<Rightarrow> ''inner'' | Some j \<Rightarrow> j) prims =
            joinData rt kcs rh ph m ''inner'' prims" for kcs rh ph m prims
    using j by (intro joinData_not_left) simp_all
  have "join_response rt (req\<lparr>joinType := jt\<rparr>) =
        join_response rt (req\<lparr>joinType := Some ''inner''\<rparr>)"
    by (simp add: join_response_def eq Let_def split: prod.splits)
  then show ?thesis
    by (simp add: reference_filter_def v split: option.splits)
qed

text \<open>
  Claim C9. For every join type other than \<^verbatim>\<open>"left"\<close>, the omitted one included, the
  handler gives the result it gives for \<^verbatim>\<open>"inner"\<close>; and when it succeeds (without
  pagination), the output consists of the merged rows of the primary rows that have a
  matching reference row, one per matching row, in order: a primary row with no
  matching composite key contributes nothing.
\<close>

theorem joinType_other_than_left:
  assumes "jt \<noteq> Some ''left''"
  shows "reference_filter rt (req\<lparr>joinType := jt\<rparr>) =
         reference_filter rt (req\<lparr>joinType := Some ''inner''\<rparr>)
    \<and> (referenceData req = Some refs \<and> primaryData req = Some prims
        \<and> keyColumns req = Some kcs \<and> page req = None
        \<and> reference_filter rt (req\<lparr>joinType := jt\<rparr>) = Inr resp \<longrightarrow>
        (let frefs = filterReference rt refs (filterConditions req)
                       (case logicOperator req of None \<Rightarrow> ''AND'' | Some l \<Rightarrow> l)
         in data resp =
              concat (map (\<lambda>p. map (mergedRow_match (object_keys (hd refs))
                                      (object_keys (hd prims)) p)
                                 (matching_rows rt kcs frefs p))
                        (filter (\<lambda>p. matching_rows rt kcs frefs p \<noteq> []) prims))))"
proof -
  have j: "(case jt of None \<Rightarrow> ''inner'' | Some j \<Rightarrow> j) \<noteq> ''left''"
    using assms by (cases jt) auto
  have rows: "data resp =
      concat (map (\<lambda>p. map (mergedRow_match (object_keys (hd refs)) (object_keys (hd prims)) p)
                         (matching_rows rt kcs
                            (filterReference rt refs (filterConditions req)
                               (case logicOperator req of None \<Rightarrow> ''AND'' | Some l \<Rightarrow> l)) p))
                (filter (\<lambda>p. matching_rows rt kcs
                            (filterReference rt refs (filterConditions req)
                               (case logicOperator req of None \<Rightarrow> ''AND'' | Some l \<Rightarrow> l)) p \<noteq> [])
                   prims))"
    if h: "referenceData req = Some refs" "primaryData req = Some prims"
      "keyColumns req = Some kcs" "page req = None"
      "reference_filter rt (req\<lparr>joinType := jt\<rparr>) = Inr resp"
  proof -
    have "resp = join_response rt (req\<lparr>joinType := jt\<rparr>)"
      using h(5) by (rule reference_filter_Inr)
    then have "data resp =
        concat (map (emitted_rows rt kcs (object_keys (hd refs)) (object_keys (hd prims))
                  (filterReference rt refs (filterConditions req)
                     (case logicOperator req of None \<Rightarrow> ''AND'' | Some l \<Rightarrow> l))
                  (case jt of None \<Rightarrow> ''inner'' | Some j \<Rightarrow> j)) prims)"
      using join_response_fields(3) [of "req\<lparr>joinType := jt\<rparr>" refs prims kcs rt] h(1-4)
      by (simp add: joinData_rows)
    also have "\<dots> =
        concat (map (\<lambda>p. map (mergedRow_match (object_keys (hd refs)) (object_keys (hd prims)) p)
                         (matching_rows rt kcs
                            (filterReference rt refs (filterConditions req)
                               (case logicOperator req of None \<Rightarrow> ''AND'' | Some l \<Rightarrow> l)) p))
                  prims)"
      by (simp only: emitted_rows_not_left [OF j])
    also have "\<dots> =
        concat (map (\<lambda>p. map (mergedRow_match (object_keys (hd refs)) (object_keys (hd prims)) p)
                         (matching_rows rt kcs
                            (filterReference rt refs (filterConditions req)
                               (case logicOperator req of None \<Rightarrow> ''AND'' | Some l \<Rightarrow> l)) p))
                (filter (\<lambda>p. matching_rows rt kcs
                            (filterReference rt refs (filterConditions req)
                               (case logicOperator req of None \<Rightarrow> ''AND'' | Some l \<Rightarrow> l)) p \<noteq> [])
                   prims))"
      by (rule concat_map_nonempty)
    finally show ?thesis .
  qed
  show ?thesis
    using reference_filter_not_left [OF assms] rows by (simp add: Let_def)
qed

text \<open>The request of scenario B with the join type left out, and with \<open>outer\<close>.\<close>

theorem joinType_other_than_left_witness:
  "reference_filter sample_runtime (scenario_request None) =
     Inr \<lparr>data = [[(''id'', JStr ''a1''), (''name'', JStr ''Bob''),
                    (''ref_id'', JStr ''A1''), (''ref_region'', JStr ''East'')]],
          headers = [''id'', ''name'', ''ref_id'', ''ref_region''],
          totalRows = 1, originalPrimaryRows = 2, filteredRefRows = 1, matchedRows = 1,
          paging = None\<rparr>
   \<and> reference_filter sample_runtime (scenario_request (Some ''outer'')) =
     Inr \<lparr>data = [[(''id'', JStr ''a1''), (''name'', JStr ''Bob''),
                    (''ref_id'', JStr ''A1''), (''ref_region'', JStr ''East'')]],
          headers = [''id'', ''name'', ''ref_id'', ''ref_region''],
          totalRows = 1, originalPrimaryRows = 2, filteredRefRows = 1, matchedRows = 1,
          paging = None\<rparr>"
proof -
  have upd: "\<And>jt jt'. (scenario_request jt')\<lparr>joinType := jt\<rparr> = scenario_request jt"
    by (simp add: scenario_request_def)
  have "reference_filter sample_runtime (scenario_request None) =
        reference_filter sample_runtime (scenario_request (Some ''inner''))"
    using joinType_other_than_left [of None sample_runtime "scenario_request None", THEN conjunct1]
    by (simp add: upd)
  moreover have "reference_filter sample_runtime (scenario_request (Some ''outer'')) =
        reference_filter sample_runtime (scenario_request (Some ''inner''))"
    using joinType_other_than_left [of "Some ''outer''" sample_runtime "scenario_request None",
        THEN conjunct1]
    by (simp add: upd)
  ultimately show ?thesis
    by (simp add: scenario_B)
qed



lemma check_keyColumns_None:
  "check_keyColumns rh ph kcs = None \<longleftrightarrow>
     (\<forall>kc\<in>set kcs. refColumn kc \<in> set rh \<and> primaryColumn kc \<in> set ph)"
  by (induction kcs) auto




lemma white_space_is_space: "c \<in> set white_space \<Longrightarrow> is_space c"
  by (auto simp: white_space_def is_space_def)

lemma blank_spaces: "blank ws \<Longrightarrow> list_all is_space ws"
  by (simp add: blank_def list_all_iff white_space_is_space)

lemma is_space_toLowerCase: "is_space c \<Longrightarrow> char_toLowerCase c = c"
  by (auto simp: is_space_def char_toLowerCase_def is_upper_def)

lemma toLowerCase_spaces: "list_all is_space ws \<Longrightarrow> toLowerCase ws = ws"
  by (induction ws) (simp_all add: toLowerCase_def is_space_toLowerCase)

lemma toLowerCase_append: "toLowerCase (xs @ ys) = toLowerCase xs @ toLowerCase ys"
  by (simp add: toLowerCase_def)

lemma trim_spaces:
  assumes "list_all is_space pre" and "list_all is_space post"
  shows "trim (pre @ s @ post) = trim s"
proof -
  have front: "dropWhile is_space (pre @ s @ post) = dropWhile is_space (s @ post)"
    using assms(1) by (intro dropWhile_append2) (auto simp: list_all_iff)
  have rear: "dropWhile is_space (rev post @ xs) = dropWhile is_space xs" for xs
    using assms(2) by (intro dropWhile_append2) (auto simp: list_all_iff)
  show ?thesis
  proof (cases "list_all is_space s")
    case True
    have e1: "dropWhile is_space (s @ post) = []"
      using True assms(2) by (auto simp: list_all_iff)
    have e2: "dropWhile is_space s = []"
      using True by (auto simp: list_all_iff)
    show ?thesis
      by (simp only: trim_def front e1 e2)
  next
    case False
    then obtain x where "x \<in> set s" and "\<not> is_space x"
      by (auto simp: list_all_iff)
    then have e: "dropWhile is_space (s @ post) = dropWhile is_space s @ post"
      by (rule dropWhile_append1)
    show ?thesis
      by (simp only: trim_def front e rev_append rear)
  qed
qed

text \<open>Every capital letter of the table has the letter beside it for its lower case, and
  that letter is its own lower case.\<close>

lemma case_table:
  "list_all (\<lambda>(c, d). char_toLowerCase c = d \<and> char_toLowerCase d = d)
     (zip upper_case lower_case)"
  by (simp add: upper_case_def lower_case_def char_toLowerCase_def is_upper_def char_of_def
      bit_Suc_0_iff)

lemma case_pair:
  "(c, d) \<in> set (zip upper_case lower_case) \<Longrightarrow> char_toLowerCase c = d \<and> char_toLowerCase d = d"
  using case_table by (auto simp: list_all_iff)

lemma same_up_to_case_toLowerCase: "same_up_to_case s t \<Longrightarrow> toLowerCase s = toLowerCase t"
  unfolding same_up_to_case_def toLowerCase_def
  by (induction rule: list_all2_induct) (auto dest: case_pair)

text \<open>The table has every letter that \<open>toLowerCase\<close> changes, and the list of white
  space every character that \<open>trim\<close> removes.\<close>

lemma upper_codes:
  "list_all (\<lambda>n. char_of (n :: nat) \<in> set upper_case)
     ([0x41..<0x5B] @ [0xC0..<0xD7] @ [0xD8..<0xDF])"
  by (simp add: upper_case_def char_of_def bit_Suc_0_iff)

lemma is_upper_upper_case:
  assumes "is_upper c"
  shows "c \<in> set upper_case"
proof -
  have "(of_char c :: nat) \<in> {0x41..<0x5B} \<union> {0xC0..<0xD7} \<union> {0xD8..<0xDF}"
    using assms by (auto simp: is_upper_def Let_def)
  then have "(of_char c :: nat) \<in> set ([0x41..<0x5B] @ [0xC0..<0xD7] @ [0xD8..<0xDF])"
    by (simp only: set_append set_upt Un_assoc)
  then have "char_of (of_char c :: nat) \<in> set upper_case"
    using upper_codes unfolding list_all_iff by blast
  then show ?thesis
    by simp
qed

lemma space_codes:
  "list_all (\<lambda>n. char_of (n :: nat) \<in> set white_space)
     [0x09, 0x0A, 0x0B, 0x0C, 0x0D, 0x20, 0xA0]"
  by (simp add: white_space_def char_of_def bit_Suc_0_iff)

lemma is_space_white_space:
  assumes "is_space c"
  shows "c \<in> set white_space"
proof -
  have "(of_char c :: nat) \<in> set [0x09, 0x0A, 0x0B, 0x0C, 0x0D, 0x20, 0xA0]"
    using assms by (simp add: is_space_def)
  then have "char_of (of_char c :: nat) \<in> set white_space"
    using space_codes unfolding list_all_iff by blast
  then show ?thesis
    by simp
qed

lemma dropWhile_none: "\<forall>c\<in>set s. \<not> P c \<Longrightarrow> dropWhile P s = s"
  by (cases s) auto

lemma trim_no_space: "list_all (\<lambda>c. \<not> is_space c) s \<Longrightarrow> trim s = s"
  by (simp add: trim_def list_all_iff dropWhile_none)

lemma keyComponent_plain:
  assumes "list_all (\<lambda>c. c \<notin> set upper_case \<and> c \<notin> set white_space) s"
  shows "keyComponent rt (JStr s) = s"
proof -
  have l: "toLowerCase s = s"
    unfolding toLowerCase_def using assms
    by (intro map_idI) (auto simp: list_all_iff char_toLowerCase_def dest: is_upper_upper_case)
  have "list_all (\<lambda>c. \<not> is_space c) s"
    using assms by (auto simp: list_all_iff dest: is_space_white_space)
  then show ?thesis
    by (simp add: keyComponent_def l trim_no_space)
qed

text \<open>
  Claim C4. The reference rows found for a primary row are exactly the rows of the
  filtered reference set whose composite key equals the composite key of the primary
  row, in the order of the reference set. The composite key of a row is made of its key
  components in the order of the key pairs, from the reference column of each pair for a
  reference row and from the primary column for a primary row, with \<open>|||\<close> between two
  components: it is empty for no pair, the component for one pair, and for more the first
  component, the separator and the composite key of the other pairs. A component that is
  \<^verbatim>\<open>null\<close> or \<^verbatim>\<open>undefined\<close> is the empty string, and any other one is the text of
  the cell, lowercased and trimmed: \<open>ABC \<close> and \<open>abc\<close> both give \<open>abc\<close>, the capital E
  with acute before a no-break space gives the small e with acute, and white space
  within a component stays. White space around a component does not matter, nor does the
  case of its letters, and a string with no capital letter and no white space is its own
  component.
\<close>

theorem composite_key_matching:
  "referenceMap rt kcs frefs (primaryCompositeKey rt kcs p) =
     (if matching_rows rt kcs frefs p = [] then None else Some (matching_rows rt kcs frefs p))
   \<and> refCompositeKey rt [] r = ''''
   \<and> refCompositeKey rt [kc] r = keyComponent rt (get_cell r (refColumn kc))
   \<and> refCompositeKey rt (kc # kc' # kcs) r =
       keyComponent rt (get_cell r (refColumn kc)) @ ''|||'' @ refCompositeKey rt (kc' # kcs) r
   \<and> primaryCompositeKey rt [] p = ''''
   \<and> primaryCompositeKey rt [kc] p = keyComponent rt (get_cell p (primaryColumn kc))
   \<and> primaryCompositeKey rt (kc # kc' # kcs) p =
       keyComponent rt (get_cell p (primaryColumn kc)) @ ''|||'' @
       primaryCompositeKey rt (kc' # kcs) p
   \<and> keyComponent rt JNull = '''' \<and> keyComponent rt JUndefined = ''''
   \<and> (v \<noteq> JNull \<and> v \<noteq> JUndefined \<longrightarrow> keyComponent rt v = trim (toLowerCase (toString rt v)))
   \<and> keyComponent rt (JStr ''ABC '') = ''abc'' \<and> keyComponent rt (JStr ''abc'') = ''abc''
   \<and> keyComponent rt (JStr [CHR 0xC9, CHR 0xA0]) = [CHR 0xE9]
   \<and> keyComponent rt (JStr '' New  York '') = ''new  york''
   \<and> (blank pre \<and> blank post \<longrightarrow>
        keyComponent rt (JStr (pre @ s @ post)) = keyComponent rt (JStr s))
   \<and> (same_up_to_case s s' \<longrightarrow> keyComponent rt (JStr s) = keyComponent rt (JStr s'))
   \<and> (list_all (\<lambda>c. c \<notin> set upper_case \<and> c \<notin> set white_space) t \<longrightarrow>
        keyComponent rt (JStr t) = t)"
proof -
  have lookup: "referenceMap rt kcs frefs (primaryCompositeKey rt kcs p) =
     (if matching_rows rt kcs frefs p = [] then None else Some (matching_rows rt kcs frefs p))"
    by (simp add: referenceMap_lookup matching_rows_def)
  have rkey: "refCompositeKey rt [] r = ''''
      \<and> refCompositeKey rt [kc] r = keyComponent rt (get_cell r (refColumn kc))
      \<and> refCompositeKey rt (kc # kc' # kcs) r =
          keyComponent rt (get_cell r (refColumn kc)) @ ''|||'' @
          refCompositeKey rt (kc' # kcs) r"
    by (simp add: refCompositeKey_def)
  have pkey: "primaryCompositeKey rt [] p = ''''
      \<and> primaryCompositeKey rt [kc] p = keyComponent rt (get_cell p (primaryColumn kc))
      \<and> primaryCompositeKey rt (kc # kc' # kcs) p =
          keyComponent rt (get_cell p (primaryColumn kc)) @ ''|||'' @
          primaryCompositeKey rt (kc' # kcs) p"
    by (simp add: primaryCompositeKey_def)
  have null: "keyComponent rt JNull = '''' \<and> keyComponent rt JUndefined = ''''"
    by (simp add: keyComponent_def)
  have other: "v \<noteq> JNull \<and> v \<noteq> JUndefined \<longrightarrow>
      keyComponent rt v = trim (toLowerCase (toString rt v))"
    by (simp add: keyComponent_def)
  have str: "keyComponent rt (JStr s) = trim (toLowerCase s)" for s
    by (simp add: keyComponent_def)
  have abc: "keyComponent rt (JStr ''ABC '') = ''abc'' \<and> keyComponent rt (JStr ''abc'') = ''abc''"
    by (simp add: str toLowerCase_def char_toLowerCase_def is_upper_def char_of_def
        bit_Suc_0_iff trim_def is_space_def)
  have latin: "keyComponent rt (JStr [CHR 0xC9, CHR 0xA0]) = [CHR 0xE9]"
    by (simp add: str toLowerCase_def char_toLowerCase_def is_upper_def char_of_def
        bit_Suc_0_iff trim_def is_space_def)
  have york: "keyComponent rt (JStr '' New  York '') = ''new  york''"
    by (simp add: str toLowerCase_def char_toLowerCase_def is_upper_def char_of_def
        bit_Suc_0_iff trim_def is_space_def)
  have plain: "list_all (\<lambda>c. c \<notin> set upper_case \<and> c \<notin> set white_space) t \<longrightarrow>
        keyComponent rt (JStr t) = t"
    by (simp add: keyComponent_plain)
  have ws: "blank pre \<and> blank post \<longrightarrow>
        keyComponent rt (JStr (pre @ s @ post)) = keyComponent rt (JStr s)"
    by (simp add: str toLowerCase_append toLowerCase_spaces trim_spaces blank_spaces)
  have lc: "same_up_to_case s s' \<longrightarrow> keyComponent rt (JStr s) = keyComponent rt (JStr s')"
    by (simp add: str same_up_to_case_toLowerCase)
  show ?thesis
    using lookup rkey pkey null other abc latin york ws lc plain by blast
qed

text \<open>
  The join on two key pairs. The three reference rows have the keys \<open>x|||1\<close>,
  \<open>x|||2\<close> and \<open>1|||x\<close>. The primary row with \<open>x\<close> and 1 finds the first reference row
  only, which has its two components; the one with \<open>x\<close> and 3 finds none; the one with 1
  and \<open>X\<close> finds the third. Two blanks on each side of \<open>Abc\<close> and the other case of
  its letters give the same component, and \<open>a-1|b\<close> is its own component.
\<close>

theorem composite_key_matching_witness:
  "primaryCompositeKey sample_runtime pair_keys [(''x'', JStr ''x''), (''y'', JStr '' 1'')]
     = ''x|||1''
   \<and> map (refCompositeKey sample_runtime pair_keys) pair_refs = [''x|||1'', ''x|||2'', ''1|||x'']
   \<and> referenceMap sample_runtime pair_keys pair_refs
       (primaryCompositeKey sample_runtime pair_keys [(''x'', JStr ''x''), (''y'', JStr '' 1'')])
     = Some [[(''a'', JStr ''X ''), (''b'', JNum (Dec 1 0))]]
   \<and> referenceMap sample_runtime pair_keys pair_refs
       (primaryCompositeKey sample_runtime pair_keys [(''x'', JStr ''x''), (''y'', JStr ''3'')])
     = None
   \<and> referenceMap sample_runtime pair_keys pair_refs
       (primaryCompositeKey sample_runtime pair_keys [(''x'', JNum (Dec 1 0)), (''y'', JStr ''X'')])
     = Some [[(''a'', JNum (Dec 1 0)), (''b'', JStr ''x'')]]
   \<and> blank ''  ''
   \<and> keyComponent sample_runtime (JStr ''  Abc  '') = keyComponent sample_runtime (JStr ''Abc'')
   \<and> same_up_to_case ''Abc'' ''aBC''
   \<and> keyComponent sample_runtime (JStr ''Abc'') = keyComponent sample_runtime (JStr ''aBC'')
   \<and> keyComponent sample_runtime (JStr ''a-1|b'') = ''a-1|b''"
proof -
  let ?p1 = "[(''x'', JStr ''x''), (''y'', JStr '' 1'')]"
  let ?p2 = "[(''x'', JStr ''x''), (''y'', JStr ''3'')]"
  let ?p3 = "[(''x'', JNum (Dec 1 0)), (''y'', JStr ''X'')]"
  let ?k1 = "\<lparr>refColumn = ''a'', primaryColumn = ''x''\<rparr>"
  let ?k2 = "\<lparr>refColumn = ''b'', primaryColumn = ''y''\<rparr>"
  note key_defs = matching_rows_def refCompositeKey_def primaryCompositeKey_def
    keyComponent_def pair_keys_def pair_refs_def number_toString.simps positive_toString_def
    digit_char_def
  have k1: "primaryCompositeKey sample_runtime pair_keys ?p1 = ''x|||1''"
    using composite_key_matching [where rt = sample_runtime and p = ?p1 and kc = ?k1
          and kc' = ?k2 and kcs = "[]",
        THEN conjunct2, THEN conjunct2, THEN conjunct2, THEN conjunct2, THEN conjunct2,
        THEN conjunct2, THEN conjunct1]
      composite_key_matching [where rt = sample_runtime and p = ?p1 and kc = ?k2,
        THEN conjunct2, THEN conjunct2, THEN conjunct2, THEN conjunct2, THEN conjunct2,
        THEN conjunct1]
    by (simp add: pair_keys_def keyComponent_def eval_defs)
  have rk: "map (refCompositeKey sample_runtime pair_keys) pair_refs
      = [''x|||1'', ''x|||2'', ''1|||x'']"
    by (simp add: key_defs eval_defs)
  have m1: "matching_rows sample_runtime pair_keys pair_refs ?p1
      = [[(''a'', JStr ''X ''), (''b'', JNum (Dec 1 0))]]"
    by (simp add: key_defs eval_defs)
  have m2: "matching_rows sample_runtime pair_keys pair_refs ?p2 = []"
    by (simp add: key_defs eval_defs)
  have m3: "matching_rows sample_runtime pair_keys pair_refs ?p3
      = [[(''a'', JNum (Dec 1 0)), (''b'', JStr ''x'')]]"
    by (simp add: key_defs eval_defs)
  have a: "referenceMap sample_runtime pair_keys pair_refs
      (primaryCompositeKey sample_runtime pair_keys ?p1)
      = Some [[(''a'', JStr ''X ''), (''b'', JNum (Dec 1 0))]]"
    using composite_key_matching [of sample_runtime pair_keys pair_refs ?p1, THEN conjunct1]
    by (simp add: m1)
  have b: "referenceMap sample_runtime pair_keys pair_refs
      (primaryCompositeKey sample_runtime pair_keys ?p2) = None"
    using composite_key_matching [of sample_runtime pair_keys pair_refs ?p2, THEN conjunct1]
    by (simp add: m2)
  have c: "referenceMap sample_runtime pair_keys pair_refs
      (primaryCompositeKey sample_runtime pair_keys ?p3)
      = Some [[(''a'', JNum (Dec 1 0)), (''b'', JStr ''x'')]]"
    using composite_key_matching [of sample_runtime pair_keys pair_refs ?p3, THEN conjunct1]
    by (simp add: m3)
  have sp: "blank ''  ''"
    by (simp add: blank_def white_space_def)
  have d: "keyComponent sample_runtime (JStr ''  Abc  '') = keyComponent sample_runtime (JStr ''Abc'')"
    using composite_key_matching [where rt = sample_runtime and pre = "''  ''" and post = "''  ''"
        and s = "''Abc''"] sp
    by simp
  have sc: "same_up_to_case ''Abc'' ''aBC''"
    by (simp add: same_up_to_case_def upper_case_def lower_case_def)
  have e: "keyComponent sample_runtime (JStr ''Abc'') = keyComponent sample_runtime (JStr ''aBC'')"
    using composite_key_matching [where rt = sample_runtime and s = "''Abc''" and s' = "''aBC''"]
      sc
    by simp
  have pl: "list_all (\<lambda>c. c \<notin> set upper_case \<and> c \<notin> set white_space) ''a-1|b''"
    by (simp add: upper_case_def white_space_def)
  have g: "keyComponent sample_runtime (JStr ''a-1|b'') = ''a-1|b''"
    using composite_key_matching [where rt = sample_runtime and t = "''a-1|b''"] pl
    by simp
  show ?thesis
    using k1 rk a b c sp d sc e g by simp
qed

section \<open>Left joins and merged rows\<close>


lemma emitted_rows_left:
  "emitted_rows rt kcs rh ph frefs ''left'' =
     (\<lambda>p. if length (matching_rows rt kcs frefs p) = 0 then [mergedRow_left rh ph p]
          else map (mergedRow_match rh ph p) (matching_rows rt kcs frefs p))"
  by (intro ext) (simp add: emitted_rows_def)

lemma get_set_cell: "get_cell (set_cell k v r) k' = (if k' = k then v else get_cell r k')"
  by (induction r) (auto simp: get_cell_def)

lemma get_cell_mergedRow_left:
  "get_cell (mergedRow_left rh ph p) k =
     (if k \<in> (\<lambda>h. ''ref_'' @ h) ` set rh then JNull else get_cell p k)"
  unfolding mergedRow_left_def
  by (induction rh arbitrary: p) (auto simp: get_set_cell)

lemma get_cell_mergedRow_match:
  "get_cell (mergedRow_match rh ph p r) k =
     (if k \<in> (\<lambda>h. ''ref_'' @ h) ` set rh then get_cell r (drop 4 k) else get_cell p k)"
  unfolding mergedRow_match_def
  by (induction rh arbitrary: p) (auto simp: get_set_cell)

lemma sum_list_max_ge_length: "length xs \<le> sum_list (map (\<lambda>x. max 1 (f x)) xs)"
  by (induction xs) (simp_all add: max_def)

lemma sum_list_max_eq_length:
  "list_all (\<lambda>x. f x \<le> 1) xs \<Longrightarrow> sum_list (map (\<lambda>x. max 1 (f x)) xs) = length xs"
  by (induction xs) (simp_all add: max_def)

text \<open>
  Claim C1, with the fan-out of a match taken in. When the handler succeeds on a left
  join, each primary row contributes, in order, one merged row for every reference row
  that matches it, and exactly one row when none matches. So the output has at least as
  many rows as there are primary rows, and exactly as many when no primary row matches
  more than one reference row. In the row of an unmatched primary row, the cell
  \<^verbatim>\<open>ref_\<close> + header is \<^verbatim>\<open>null\<close> for every header of the reference set. (Without
  pagination the rows are the \<^verbatim>\<open>data\<close> of the response.)
\<close>

theorem left_join_rows:
  assumes "reference_filter rt req = Inr resp"
    and "referenceData req = Some refs" and "primaryData req = Some prims"
    and "keyColumns req = Some kcs"
    and "joinType req = Some ''left''" and "page req = None"
  shows "(let rh = object_keys (hd refs);
              ph = object_keys (hd prims);
              frefs = filterReference rt refs (filterConditions req)
                        (case logicOperator req of None \<Rightarrow> ''AND'' | Some l \<Rightarrow> l);
              n = (\<lambda>p. length (matching_rows rt kcs frefs p))
          in data resp =
               concat (map (\<lambda>p. if n p = 0 then [mergedRow_left rh ph p]
                                else map (mergedRow_match rh ph p) (matching_rows rt kcs frefs p))
                         prims)
           \<and> length (data resp) = sum_list (map (\<lambda>p. max 1 (n p)) prims)
           \<and> length prims \<le> length (data resp)
           \<and> (list_all (\<lambda>p. n p \<le> 1) prims \<longrightarrow> length (data resp) = length prims)
           \<and> (\<forall>p. \<forall>h\<in>set rh. get_cell (mergedRow_left rh ph p) (''ref_'' @ h) = JNull))"
proof -
  let ?rh = "object_keys (hd refs)"
  let ?ph = "object_keys (hd prims)"
  let ?frefs = "filterReference rt refs (filterConditions req)
                  (case logicOperator req of None \<Rightarrow> ''AND'' | Some l \<Rightarrow> l)"
  let ?n = "\<lambda>p. length (matching_rows rt kcs ?frefs p)"
  let ?rows = "\<lambda>p. if ?n p = 0 then [mergedRow_left ?rh ?ph p]
                   else map (mergedRow_match ?rh ?ph p) (matching_rows rt kcs ?frefs p)"
  have "resp = join_response rt req"
    using assms(1) by (rule reference_filter_Inr)
  then have "data resp = concat (map (emitted_rows rt kcs ?rh ?ph ?frefs ''left'') prims)"
    using join_response_fields(3) [of req refs prims kcs rt] assms(2-6)
    by (simp add: joinData_rows)
  then have d: "data resp = concat (map ?rows prims)"
    by (simp only: emitted_rows_left)
  have len: "length (?rows p) = max 1 (?n p)" for p
    by (cases "matching_rows rt kcs ?frefs p") (simp_all add: max_def)
  have count: "length (data resp) = sum_list (map (\<lambda>p. max 1 (?n p)) prims)"
    unfolding d length_concat map_map comp_def len ..
  have ge: "length prims \<le> length (data resp)"
    unfolding count by (rule sum_list_max_ge_length)
  have eq: "list_all (\<lambda>p. ?n p \<le> 1) prims \<longrightarrow> length (data resp) = length prims"
    unfolding count by (intro impI) (rule sum_list_max_eq_length)
  have nulls: "\<forall>p. \<forall>h\<in>set ?rh. get_cell (mergedRow_left ?rh ?ph p) (''ref_'' @ h) = JNull"
    by (simp add: get_cell_mergedRow_left)
  show ?thesis
    unfolding Let_def using d count ge eq nulls by blast
qed

text \<open>
  As the claim words it, with exactly as many output rows as primary rows, it fails when
  a key fans out: one primary row whose key matches two reference rows gives two rows.
\<close>

theorem left_join_fan_out_counterexample:
  "reference_filter sample_runtime
     \<lparr>referenceData = Some [[(''id'', JStr ''A1''), (''region'', JStr ''East'')],
                            [(''id'', JStr ''a1''), (''region'', JStr ''West'')]],
      primaryData = Some [[(''id'', JStr ''a1''), (''name'', JStr ''Bob'')]],
      keyColumns = Some [\<lparr>refColumn = ''id'', primaryColumn = ''id''\<rparr>],
      filterConditions = None, joinType = Some ''left'', logicOperator = None,
      page = None, pageSize = None\<rparr>
   = Inr \<lparr>data = [[(''id'', JStr ''a1''), (''name'', JStr ''Bob''),
                    (''ref_id'', JStr ''A1''), (''ref_region'', JStr ''East'')],
                   [(''id'', JStr ''a1''), (''name'', JStr ''Bob''),
                    (''ref_id'', JStr ''a1''), (''ref_region'', JStr ''West'')]],
          headers = [''id'', ''name'', ''ref_id'', ''ref_region''],
          totalRows = 2, originalPrimaryRows = 1, filteredRefRows = 2, matchedRows = 1,
          paging = None\<rparr>"
  by (simp add: join_defs eval_defs)

text \<open>Scenario C: two primary rows, two output rows, and the row of the unmatched one has
  \<^verbatim>\<open>null\<close> in both reference columns.\<close>

theorem left_join_rows_witness:
  "reference_filter sample_runtime (scenario_request (Some ''left'')) =
     Inr \<lparr>data = [[(''id'', JStr ''a1''), (''name'', JStr ''Bob''),
                    (''ref_id'', JStr ''A1''), (''ref_region'', JStr ''East'')],
                   [(''id'', JStr ''B2''), (''name'', JStr ''Sue''),
                    (''ref_id'', JNull), (''ref_region'', JNull)]],
          headers = [''id'', ''name'', ''ref_id'', ''ref_region''],
          totalRows = 2, originalPrimaryRows = 2, filteredRefRows = 1, matchedRows = 1,
          paging = None\<rparr>
   \<and> get_cell (mergedRow_left [''id'', ''region''] [''id'', ''name'']
                 [(''id'', JStr ''B2''), (''name'', JStr ''Sue'')]) ''ref_region'' = JNull
   \<and> get_cell (mergedRow_left [''id'', ''region''] [''id'', ''name'']
                 [(''id'', JStr ''B2''), (''name'', JStr ''Sue'')]) ''ref_id'' = JNull"
proof -
  note w = left_join_rows [OF scenario_C, of "[[(''id'', JStr ''A1''), (''region'', JStr ''East'')]]"
      "[[(''id'', JStr ''a1''), (''name'', JStr ''Bob'')],
        [(''id'', JStr ''B2''), (''name'', JStr ''Sue'')]]"
      "[\<lparr>refColumn = ''id'', primaryColumn = ''id''\<rparr>]"]
  have "\<forall>p. \<forall>h\<in>set [''id'', ''region''].
          get_cell (mergedRow_left [''id'', ''region''] [''id'', ''name''] p) (''ref_'' @ h) = JNull"
    using w by (simp add: scenario_request_def Let_def object_keys_def)
  then show ?thesis
    using scenario_C by simp
qed

text \<open>What a merged row holds: the value of the primary row under every name that is not
  \<^verbatim>\<open>ref_\<close> + a reference header, and the value of the reference row under those.\<close>

lemma mergedRow_match_primary:
  "c \<notin> (\<lambda>h. ''ref_'' @ h) ` set rh \<Longrightarrow> get_cell (mergedRow_match rh ph p r) c = get_cell p c"
  by (simp add: get_cell_mergedRow_match)

lemma mergedRow_match_reference:
  "h \<in> set rh \<Longrightarrow> get_cell (mergedRow_match rh ph p r) (''ref_'' @ h) = get_cell r h"
  by (simp add: get_cell_mergedRow_match)

text \<open>
  Claim C5 says that a merged row keeps every primary column verbatim, that no primary
  value is overwritten, and that every reference column is added under \<^verbatim>\<open>ref_\<close> + its
  name. The two lemmas above give this for every column whose name is not \<^verbatim>\<open>ref_\<close> +
  a reference header. The code misses the claim where a primary column has such a name:
  for a primary row with the columns \<open>id\<close> and \<open>ref_id\<close> and a reference row with the
  column \<open>id\<close>, the assignment to \<^verbatim>\<open>mergedRow['ref_id']\<close> replaces the primary value
  \<open>X9\<close> by the reference value \<open>A1\<close>, and the header lists \<open>ref_id\<close> twice.
\<close>

theorem ref_prefix_collision:
  "reference_filter sample_runtime
     \<lparr>referenceData = Some [[(''id'', JStr ''A1'')]],
      primaryData = Some [[(''id'', JStr ''a1''), (''ref_id'', JStr ''X9'')]],
      keyColumns = Some [\<lparr>refColumn = ''id'', primaryColumn = ''id''\<rparr>],
      filterConditions = None, joinType = Some ''inner'', logicOperator = None,
      page = None, pageSize = None\<rparr>
   = Inr \<lparr>data = [[(''id'', JStr ''a1''), (''ref_id'', JStr ''A1'')]],
          headers = [''id'', ''ref_id'', ''ref_id''],
          totalRows = 1, originalPrimaryRows = 1, filteredRefRows = 1, matchedRows = 1,
          paging = None\<rparr>"
  by (simp add: join_defs eval_defs)

section \<open>Type inference\<close>

lemma columnType_no_sample:
  "sampleValues rows header = [] \<Longrightarrow> columnType rt rows header = ''text''"
  by (simp add: columnType_def typeOfSample_def)

lemma columnType_small_set:
  "length rows < 10 \<Longrightarrow> columnType rt rows header = ''text''"
  by (simp add: columnType_def typeOfSample_def sampleValues_def sampleSize_def nonEmptyValues_def)

lemmas detect_defs =
  detectDataType_def datePatterns_def matches_template_def StringToNumber_def radix_literal_def
  typeOfSample_def typeCount_def nonEmptyValues_def

text \<open>
  Claim C2 says that a column with the four cell values 1, 2, \<open>"3"\<close> and \<open>""\<close> is typed
  \<open>number\<close>. Each of the three values that are not empty is classified \<open>number\<close>, and
  the copy of the function in \<^verbatim>\<open>src/backend/server.js\<close> types the column \<open>number\<close>.
  The code under \<^verbatim>\<open>src/unnamed/part_001\<close> samples
  \<^verbatim>\<open>Math.min(100, Math.floor(data.length / 10))\<close> rows, which is no row for a set of
  four, and types the column \<open>text\<close>. The second half of the claim holds (lemma
  \<open>columnType_no_sample\<close>): a column with no sampled value that is not empty is typed
  \<open>text\<close>.
\<close>

theorem four_values_typed_text:
  "columnType sample_runtime
     [[(''a'', JNum (Dec 1 0))], [(''a'', JNum (Dec 2 0))], [(''a'', JStr ''3'')],
      [(''a'', JStr '''')]] ''a'' = ''text''
   \<and> sampleSize
     [[(''a'', JNum (Dec 1 0))], [(''a'', JNum (Dec 2 0))], [(''a'', JStr ''3'')],
      [(''a'', JStr '''')]] = 0
   \<and> map (detectDataType sample_runtime) [JNum (Dec 1 0), JNum (Dec 2 0), JStr ''3''] =
       [''number'', ''number'', ''number'']
   \<and> columnType_backend sample_runtime
     [[(''a'', JNum (Dec 1 0))], [(''a'', JNum (Dec 2 0))], [(''a'', JStr ''3'')],
      [(''a'', JStr '''')]] ''a'' = ''number''
   \<and> parseExcel sample_runtime
     [[(''a'', JNum (Dec 1 0))], [(''a'', JNum (Dec 2 0))], [(''a'', JStr ''3'')],
      [(''a'', JStr '''')]] =
     Inr ([''a''],
          [[(''a'', JNum (Dec 1 0))], [(''a'', JNum (Dec 2 0))], [(''a'', JStr ''3'')],
           [(''a'', JStr '''')]],
          [(''a'', ''text'')],
          4)"
  by (simp add: parseExcel_def object_keys_def columnType_def columnType_backend_def
      sampleValues_def sampleSize_def detect_defs eval_defs)

text \<open>With 36 more rows the four values are the sample, and the column is typed
  \<open>number\<close>.\<close>

lemma four_values_sampled:
  "columnType sample_runtime
     ([[(''a'', JNum (Dec 1 0))], [(''a'', JNum (Dec 2 0))], [(''a'', JStr ''3'')],
       [(''a'', JStr '''')]] @ replicate 36 [(''a'', JStr '''')]) ''a'' = ''number''"
  by (simp add: columnType_def sampleValues_def sampleSize_def detect_defs eval_defs)

end
